theory Spec2Isabelle
  imports Complex_Main
begin

section \<open>Numbers of the source language\<close>

text \<open>
  The prediction engine (class \<open>ModelingService\<close>) computes with JavaScript numbers.
  The columns of a benchmark row and the target of a request are finite numbers, and the
  regressions on them are modelled in exact real arithmetic: rounding, overflow and the
  negative zero of IEEE doubles are left out, so \<open>Math.max(0, x)\<close> is \<open>max 0 x\<close> and
  \<open>Math.sqrt\<close> is the real square root. The special values that the source tests
  for explicitly (\<open>isFinite\<close>, \<open>!denominator\<close>) are kept: a number held in the
  \<open>predictions\<close> object is a \<open>jsnum\<close>, and a key that was never assigned reads as
  \<open>undefined\<close>, which is \<open>None\<close> of the map.
\<close>

datatype jsnum = Fin real | PInf | NInf | NaN

fun isFinite :: "jsnum \<Rightarrow> bool" where
  "isFinite (Fin x) = True"
| "isFinite PInf = False"
| "isFinite NInf = False"
| "isFinite NaN = False"

fun jadd :: "jsnum \<Rightarrow> jsnum \<Rightarrow> jsnum" where
  "jadd (Fin a) (Fin b) = Fin (a + b)"
| "jadd NaN y = NaN"
| "jadd x NaN = NaN"
| "jadd PInf NInf = NaN"
| "jadd NInf PInf = NaN"
| "jadd PInf y = PInf"
| "jadd x PInf = PInf"
| "jadd NInf y = NInf"
| "jadd x NInf = NInf"

fun jmul :: "jsnum \<Rightarrow> jsnum \<Rightarrow> jsnum" where
  "jmul (Fin a) (Fin b) = Fin (a * b)"
| "jmul NaN y = NaN"
| "jmul x NaN = NaN"
| "jmul PInf (Fin b) = (if 0 < b then PInf else if b < 0 then NInf else NaN)"
| "jmul NInf (Fin b) = (if 0 < b then NInf else if b < 0 then PInf else NaN)"
| "jmul (Fin a) PInf = (if 0 < a then PInf else if a < 0 then NInf else NaN)"
| "jmul (Fin a) NInf = (if 0 < a then NInf else if a < 0 then PInf else NaN)"
| "jmul PInf PInf = PInf"
| "jmul NInf NInf = PInf"
| "jmul PInf NInf = NInf"
| "jmul NInf PInf = NInf"

fun jdiv :: "jsnum \<Rightarrow> jsnum \<Rightarrow> jsnum" where
  "jdiv (Fin a) (Fin b) =
     (if b \<noteq> 0 then Fin (a / b)
      else if 0 < a then PInf else if a < 0 then NInf else NaN)"
| "jdiv NaN y = NaN"
| "jdiv x NaN = NaN"
| "jdiv (Fin a) PInf = Fin 0"
| "jdiv (Fin a) NInf = Fin 0"
| "jdiv PInf (Fin b) = (if 0 \<le> b then PInf else NInf)"
| "jdiv NInf (Fin b) = (if 0 \<le> b then NInf else PInf)"
| "jdiv PInf y = NaN"
| "jdiv NInf y = NaN"

text \<open>The comparisons \<open><\<close> and \<open><=\<close>: false as soon as one side is \<open>NaN\<close>.\<close>

fun jlt :: "jsnum \<Rightarrow> jsnum \<Rightarrow> bool" where
  "jlt (Fin a) (Fin b) = (a < b)"
| "jlt NaN y = False"
| "jlt x NaN = False"
| "jlt x NInf = False"
| "jlt PInf y = False"
| "jlt NInf y = True"
| "jlt x PInf = True"

fun jle :: "jsnum \<Rightarrow> jsnum \<Rightarrow> bool" where
  "jle (Fin a) (Fin b) = (a \<le> b)"
| "jle NaN y = False"
| "jle x NaN = False"
| "jle NInf y = True"
| "jle x PInf = True"
| "jle x NInf = False"
| "jle PInf y = False"

text \<open>
  A value read from an object: \<open>None\<close> is \<open>undefined\<close>. \<open>toNumber\<close> is the coercion
  of arithmetic, comparison and the global \<open>isFinite\<close>; \<open>falsy v\<close> is \<open>!v\<close>.
\<close>

fun toNumber :: "jsnum option \<Rightarrow> jsnum" where
  "toNumber None = NaN"
| "toNumber (Some x) = x"

fun falsy :: "jsnum option \<Rightarrow> bool" where
  "falsy None = True"
| "falsy (Some (Fin x)) = (x = 0)"
| "falsy (Some NaN) = True"
| "falsy (Some PInf) = False"
| "falsy (Some NInf) = False"

text \<open>
  \<open>(v as number) || d\<close> on a column of a database row: the column is a number or
  SQL NULL (\<open>None\<close>); NULL and 0 are both falsy and give the default.
\<close>

fun orElse :: "real option \<Rightarrow> real \<Rightarrow> real" where
  "orElse None d = d"
| "orElse (Some v) d = (if v = 0 then d else v)"

text \<open>\<open>Math.round\<close>: the nearest integer, a tie rounding up.\<close>

definition Math_round :: "real \<Rightarrow> int" where
  "Math_round x = \<lfloor>x + 1 / 2\<rfloor>"

section \<open>Data model\<close>

text \<open>The 25 statistics: the keys of \<open>ModelingResult['predictions']\<close>.\<close>

datatype metric =
    ttft_mean | ttft_stdev | ttft_p05 | ttft_p50 | ttft_p80 | ttft_p95 | ttft_p99 | ttft_p999
  | user_tps_mean | user_tps_stdev | user_tps_p05 | user_tps_p50 | user_tps_p80
  | user_tps_p95 | user_tps_p99 | user_tps_p999
  | e2e_mean | e2e_stdev | e2e_p05 | e2e_p50 | e2e_p80 | e2e_p95 | e2e_p99 | e2e_p999
  | throughput

definition ttftMetrics :: "metric list" where
  "ttftMetrics =
     [ttft_mean, ttft_stdev, ttft_p05, ttft_p50, ttft_p80, ttft_p95, ttft_p99, ttft_p999]"

definition tpsMetrics :: "metric list" where
  "tpsMetrics =
     [user_tps_mean, user_tps_stdev, user_tps_p05, user_tps_p50, user_tps_p80,
      user_tps_p95, user_tps_p99, user_tps_p999]"

definition e2eRegressionMetrics :: "metric list" where
  "e2eRegressionMetrics = [e2e_stdev, e2e_p05, e2e_p50, e2e_p80, e2e_p95, e2e_p99, e2e_p999]"

text \<open>The list \<open>metrics\<close> of \<open>performSimpleAveraging\<close>.\<close>

definition metrics :: "metric list" where
  "metrics =
     [ttft_mean, ttft_stdev, ttft_p05, ttft_p50, ttft_p80, ttft_p95, ttft_p99, ttft_p999,
      user_tps_mean, user_tps_stdev, user_tps_p05, user_tps_p50, user_tps_p80,
      user_tps_p95, user_tps_p99, user_tps_p999,
      e2e_mean, e2e_stdev, e2e_p05, e2e_p50, e2e_p80, e2e_p95, e2e_p99, e2e_p999,
      throughput]"

text \<open>
  One row of the aggregating query of \<open>predictPerformance\<close> (an element of
  \<open>benchmarks\<close>). \<open>input_avg_len\<close> and \<open>output_avg_len\<close> are \<open>REAL NOT NULL\<close>
  columns; \<open>traffic_level\<close> and the statistics are nullable. \<open>stat b m\<close> is the
  source's \<open>b[m]\<close>.
\<close>

record benchmark =
  input_avg_len :: real
  output_avg_len :: real
  traffic_level :: "real option"
  stat :: "metric \<Rightarrow> real option"

datatype PredictionMethod = Auto_detect | Polynomial | Linear | Average

text \<open>
  \<open>ModelingRequest\<close>. Its fields carry the prefix \<open>req_\<close>, since \<open>ModelingResult\<close>
  has fields of the same names; an optional field is an \<open>option\<close>.
\<close>

record ModelingRequest =
  req_model :: string
  req_input_tokens :: real
  req_output_tokens :: real
  req_traffic_level :: "real option"
  req_method :: "PredictionMethod option"

datatype Confidence = High | Medium | Low

type_synonym predictions = "metric \<rightharpoonup> jsnum"

record ModelingResult =
  model :: string
  input_tokens :: real
  output_tokens :: real
  predictions :: predictions
  confidence :: Confidence
  num_benchmarks_used :: nat
  interpolation_method :: string

text \<open>The only exception the engine can raise: reading \<open>X[0].length\<close> of an empty \<open>X\<close>.\<close>

datatype error = TypeError

definition thenE :: "error + 'a \<Rightarrow> ('a \<Rightarrow> error + 'b) \<Rightarrow> error + 'b" where
  "thenE r k = (case r of Inl e \<Rightarrow> Inl e | Inr v \<Rightarrow> k v)"

section \<open>Mechanistic end-to-end mean\<close>

text \<open>The local function \<open>safeDivide\<close> of \<open>calculateE2EMeanMechanistically\<close>.\<close>

definition safeDivide :: "jsnum \<Rightarrow> jsnum option \<Rightarrow> jsnum \<Rightarrow> jsnum" where
  "safeDivide numerator denominator fallback =
     (if falsy denominator \<or> jle (toNumber denominator) (Fin 0)
         \<or> \<not> isFinite (toNumber denominator)
      then fallback
      else (let result = jdiv numerator (toNumber denominator)
            in if isFinite result then result else fallback))"

text \<open>
  \<open>calculateE2EMeanMechanistically\<close> assigns \<open>predictions.e2e_mean\<close> in place; the
  model returns the updated object.
\<close>

definition calculateE2EMeanMechanistically :: "predictions \<Rightarrow> jsnum \<Rightarrow> predictions" where
  "calculateE2EMeanMechanistically preds outputTokens =
     (let genTimeMs =
            jmul (safeDivide outputTokens (preds user_tps_mean) (jmul outputTokens (Fin 10)))
                 (Fin 1000);
          preds1 = preds(e2e_mean \<mapsto> jadd (toNumber (preds ttft_mean)) genTimeMs)
      in if \<not> isFinite (toNumber (preds1 e2e_mean)) \<or> jlt (toNumber (preds1 e2e_mean)) (Fin 0)
         then preds1(e2e_mean \<mapsto>
                jadd (toNumber (preds1 ttft_mean)) (jmul outputTokens (Fin 10)))
         else preds1)"

section \<open>Simple averaging\<close>

text \<open>
  \<open>performSimpleAveraging\<close>: for each metric, \<open>values.reduce((a, b) => a + b, 0) /
  values.length\<close>. The division of an empty list is \<open>0 / 0\<close>, which is \<open>NaN\<close>.
\<close>

definition averageOf :: "benchmark list \<Rightarrow> metric \<Rightarrow> jsnum" where
  "averageOf benchmarks m =
     (let vals = map (\<lambda>b. orElse (stat b m) 0) benchmarks
      in jdiv (Fin (foldl (\<lambda>a b. a + b) 0 vals)) (Fin (real (length vals))))"

definition performSimpleAveraging :: "benchmark list \<Rightarrow> predictions" where
  "performSimpleAveraging benchmarks =
     foldl (\<lambda>preds m. preds(m \<mapsto> averageOf benchmarks m)) Map.empty metrics"

definition predictWithAverage :: "benchmark list \<Rightarrow> ModelingRequest \<Rightarrow> ModelingResult" where
  "predictWithAverage benchmarks request =
     \<lparr> model = req_model request,
       input_tokens = req_input_tokens request,
       output_tokens = req_output_tokens request,
       predictions = performSimpleAveraging benchmarks,
       confidence = Low,
       num_benchmarks_used = length benchmarks,
       interpolation_method = ''simple_average'' \<rparr>"

section \<open>Least-squares fits\<close>

text \<open>
  The fitters are private methods reached from \<open>predictPerformance\<close> only after its
  \<open>benchmarks.length === 0\<close> check, so with non-empty \<open>data\<close>. For empty data the
  means of \<open>fitLinearModel\<close> would be \<open>0 / 0\<close>; the real-valued model is meant for
  non-empty data, and every statement about it assumes that.

  The objects of coefficients all have a field \<open>intercept\<close>; the records share it.
\<close>

record Intercept =
  intercept :: real

record LinearCoeffs = Intercept +
  inputCoeff :: real
  outputCoeff :: real

record LinearCoeffs3D = Intercept +
  x1Coeff :: real
  x2Coeff :: real
  x3Coeff :: real

record PolyCoeffs = Intercept +
  x1 :: real
  x2 :: real
  x1_sq :: real
  x2_sq :: real
  x1x2 :: real

record PolyCoeffs3D = PolyCoeffs +
  x3 :: real
  x3_sq :: real
  x1x3 :: real
  x2x3 :: real

text \<open>
  \<open>fitLinearModel\<close>. The first loop of the source also accumulates sums of products
  that are never read; the model keeps the three sums the means need. The second loop
  updates five accumulators in one pass; each is a fold here. The sums are exact here and
  rounded in the source: where \<open>denom\<close> is within rounding of the threshold
  \<open>1e-10\<close> the source may take the other branch, and its coefficients carry the
  rounding of every sum. The statements below use of this fit only that its value is
  clamped at 0, and its value on constant data.
\<close>

definition fitLinearModel :: "benchmark list \<Rightarrow> metric \<Rightarrow> LinearCoeffs" where
  "fitLinearModel data targetMetric =
     (let n = real (length data);
          sumX1 = foldl (\<lambda>s point. s + input_avg_len point) 0 data;
          sumX2 = foldl (\<lambda>s point. s + output_avg_len point) 0 data;
          sumY = foldl (\<lambda>s point. s + orElse (stat point targetMetric) 0) 0 data;
          meanX1 = sumX1 / n;
          meanX2 = sumX2 / n;
          meanY = sumY / n;
          dx1 = (\<lambda>point. input_avg_len point - meanX1);
          dx2 = (\<lambda>point. output_avg_len point - meanX2);
          dy = (\<lambda>point. orElse (stat point targetMetric) 0 - meanY);
          varX1 = foldl (\<lambda>s point. s + dx1 point * dx1 point) 0 data;
          varX2 = foldl (\<lambda>s point. s + dx2 point * dx2 point) 0 data;
          covX1X2 = foldl (\<lambda>s point. s + dx1 point * dx2 point) 0 data;
          covX1Y = foldl (\<lambda>s point. s + dx1 point * dy point) 0 data;
          covX2Y = foldl (\<lambda>s point. s + dx2 point * dy point) 0 data;
          denom = varX1 * varX2 - covX1X2 * covX1X2;
          inputC =
            (if \<bar>denom\<bar> > 1 / 10 ^ 10 then (covX1Y * varX2 - covX2Y * covX1X2) / denom
             else if varX1 > 0 then covX1Y / varX1 else 0);
          outputC =
            (if \<bar>denom\<bar> > 1 / 10 ^ 10 then (covX2Y * varX1 - covX1Y * covX1X2) / denom
             else if varX2 > 0 then covX2Y / varX2 else 0)
      in \<lparr> intercept = meanY - inputC * meanX1 - outputC * meanX2,
           inputCoeff = inputC,
           outputCoeff = outputC \<rparr>)"

text \<open>
  \<open>solvePolynomial\<close>: the normal equations \<open>XtX\<close>, \<open>Xty\<close> and 100 Gauss-Seidel
  sweeps that update \<open>coeffs\<close> in place. Its callers build every row of \<open>X\<close> with
  the same number of entries and \<open>y\<close> as long as \<open>X\<close>. An empty \<open>X\<close> makes
  \<open>X[0].length\<close> throw.
\<close>

definition XtX_of :: "real list list \<Rightarrow> nat \<Rightarrow> real list list" where
  "XtX_of X m =
     map (\<lambda>i. map (\<lambda>j. foldl (\<lambda>s k. s + X ! k ! i * X ! k ! j) 0 [0..<length X]) [0..<m])
       [0..<m]"

definition Xty_of :: "real list list \<Rightarrow> real list \<Rightarrow> nat \<Rightarrow> real list" where
  "Xty_of X y m = map (\<lambda>i. foldl (\<lambda>s k. s + X ! k ! i * y ! k) 0 [0..<length X]) [0..<m]"

definition gsUpdate :: "real list list \<Rightarrow> real list \<Rightarrow> nat \<Rightarrow> real list \<Rightarrow> nat \<Rightarrow> real list" where
  "gsUpdate XtX Xty m coeffs i =
     (let sum = foldl (\<lambda>s j. if i \<noteq> j then s - XtX ! i ! j * coeffs ! j else s) (Xty ! i) [0..<m]
      in if \<bar>XtX ! i ! i\<bar> > 1 / 10 ^ 10 then coeffs[i := sum / (XtX ! i ! i)] else coeffs)"

definition gsSweep :: "real list list \<Rightarrow> real list \<Rightarrow> nat \<Rightarrow> real list \<Rightarrow> real list" where
  "gsSweep XtX Xty m coeffs = foldl (gsUpdate XtX Xty m) coeffs [0..<m]"

definition solvePolynomial :: "real list list \<Rightarrow> real list \<Rightarrow> error + real list" where
  "solvePolynomial X y =
     (case X of
        [] \<Rightarrow> Inl TypeError
      | row0 # rest \<Rightarrow>
          (let m = length row0
           in Inr (foldl (\<lambda>coeffs iter. gsSweep (XtX_of X m) (Xty_of X y m) m coeffs)
                     (replicate m 0) [0..<100])))"

text \<open>\<open>coeffs[i] || 0\<close>: an index past the end reads \<open>undefined\<close> and gives 0.\<close>

definition coeffOr0 :: "real list \<Rightarrow> nat \<Rightarrow> real" where
  "coeffOr0 coeffs i = (if i < length coeffs then coeffs ! i else 0)"

text \<open>The rows of features that the fitters push onto \<open>X\<close>.\<close>

definition polyRow :: "benchmark \<Rightarrow> real list" where
  "polyRow point =
     (let x1 = input_avg_len point; x2 = output_avg_len point
      in [1, x1, x2, x1 * x1, x2 * x2, x1 * x2])"

definition polyRow3D :: "benchmark \<Rightarrow> real list" where
  "polyRow3D point =
     (let x1 = input_avg_len point; x2 = output_avg_len point;
          x3 = orElse (traffic_level point) (1 / 2)
      in [1, x1, x2, x3, x1 * x1, x2 * x2, x3 * x3, x1 * x2, x1 * x3, x2 * x3])"

definition linearRow3D :: "benchmark \<Rightarrow> real list" where
  "linearRow3D point =
     (let x1 = input_avg_len point; x2 = output_avg_len point;
          x3 = orElse (traffic_level point) (1 / 2)
      in [1, x1, x2, x3])"

definition fitPolynomialModel :: "benchmark list \<Rightarrow> metric \<Rightarrow> error + PolyCoeffs" where
  "fitPolynomialModel data targetMetric =
     thenE (solvePolynomial (map polyRow data)
              (map (\<lambda>point. orElse (stat point targetMetric) 0) data))
       (\<lambda>coeffs. Inr \<lparr> intercept = coeffOr0 coeffs 0,
                        x1 = coeffOr0 coeffs 1,
                        x2 = coeffOr0 coeffs 2,
                        x1_sq = coeffOr0 coeffs 3,
                        x2_sq = coeffOr0 coeffs 4,
                        x1x2 = coeffOr0 coeffs 5 \<rparr>)"

definition fitPolynomialModel3D :: "benchmark list \<Rightarrow> metric \<Rightarrow> error + PolyCoeffs3D" where
  "fitPolynomialModel3D data targetMetric =
     thenE (solvePolynomial (map polyRow3D data)
              (map (\<lambda>point. orElse (stat point targetMetric) 0) data))
       (\<lambda>coeffs. Inr \<lparr> intercept = coeffOr0 coeffs 0,
                        x1 = coeffOr0 coeffs 1,
                        x2 = coeffOr0 coeffs 2,
                        x1_sq = coeffOr0 coeffs 4,
                        x2_sq = coeffOr0 coeffs 5,
                        x1x2 = coeffOr0 coeffs 7,
                        x3 = coeffOr0 coeffs 3,
                        x3_sq = coeffOr0 coeffs 6,
                        x1x3 = coeffOr0 coeffs 8,
                        x2x3 = coeffOr0 coeffs 9 \<rparr>)"

definition fitLinearModel3D :: "benchmark list \<Rightarrow> metric \<Rightarrow> error + LinearCoeffs3D" where
  "fitLinearModel3D data targetMetric =
     thenE (solvePolynomial (map linearRow3D data)
              (map (\<lambda>point. orElse (stat point targetMetric) 0) data))
       (\<lambda>coeffs. Inr \<lparr> intercept = coeffOr0 coeffs 0,
                        x1Coeff = coeffOr0 coeffs 1,
                        x2Coeff = coeffOr0 coeffs 2,
                        x3Coeff = coeffOr0 coeffs 3 \<rparr>)"

section \<open>Interpolation\<close>

text \<open>
  A \<open>for (const metric of ...)\<close> loop that assigns \<open>predictions[metric]\<close>; an
  exception thrown by a fit leaves the loop and the method.
\<close>

fun assignEach ::
  "(metric \<Rightarrow> error + jsnum) \<Rightarrow> metric list \<Rightarrow> predictions \<Rightarrow> error + predictions" where
  "assignEach f [] preds = Inr preds"
| "assignEach f (m # rest) preds =
     (case f m of Inl e \<Rightarrow> Inl e | Inr v \<Rightarrow> assignEach f rest (preds(m \<mapsto> v)))"

text \<open>
  The body that the four loops of \<open>performMultivariateInterpolation\<close> repeat: the
  3-feature fit when a target traffic level is given, the 2-feature fit otherwise,
  evaluated at the target and passed through \<open>Math.max(0, _)\<close>.
\<close>

definition linearPrediction ::
  "benchmark list \<Rightarrow> real \<Rightarrow> real \<Rightarrow> real option \<Rightarrow> metric \<Rightarrow> error + jsnum" where
  "linearPrediction benchmarks targetInput targetOutput targetTraffic m =
     (case targetTraffic of
        Some t \<Rightarrow>
          thenE (fitLinearModel3D benchmarks m)
            (\<lambda>coeffs3D. Inr (Fin (max 0
               (intercept coeffs3D +
                x1Coeff coeffs3D * targetInput +
                x2Coeff coeffs3D * targetOutput +
                x3Coeff coeffs3D * t))))
      | None \<Rightarrow>
          (let coeffs = fitLinearModel benchmarks m
           in Inr (Fin (max 0
                (intercept coeffs +
                 inputCoeff coeffs * targetInput +
                 outputCoeff coeffs * targetOutput)))))"

definition performMultivariateInterpolation ::
  "benchmark list \<Rightarrow> real \<Rightarrow> real \<Rightarrow> real option \<Rightarrow> error + predictions" where
  "performMultivariateInterpolation benchmarks targetInput targetOutput targetTraffic =
     (let use3D = (targetTraffic \<noteq> None);
          e2eMetricsToPredict =
            (if use3D then e2e_mean # e2eRegressionMetrics else e2eRegressionMetrics);
          predict = linearPrediction benchmarks targetInput targetOutput targetTraffic
      in thenE (assignEach predict ttftMetrics Map.empty) (\<lambda>p1.
         thenE (assignEach predict tpsMetrics p1) (\<lambda>p2.
         thenE (assignEach predict e2eMetricsToPredict p2) (\<lambda>p3.
         thenE (assignEach predict [throughput] p3) (\<lambda>p4.
         Inr (if \<not> use3D then calculateE2EMeanMechanistically p4 (Fin targetOutput)
              else p4))))))"

text \<open>The same for \<open>performPolynomialInterpolation\<close>.\<close>

definition polynomialPrediction ::
  "benchmark list \<Rightarrow> real \<Rightarrow> real \<Rightarrow> real option \<Rightarrow> metric \<Rightarrow> error + jsnum" where
  "polynomialPrediction benchmarks targetInput targetOutput targetTraffic m =
     (case targetTraffic of
        Some t \<Rightarrow>
          thenE (fitPolynomialModel3D benchmarks m)
            (\<lambda>coeffs3D. Inr (Fin (max 0
               (intercept coeffs3D +
                x1 coeffs3D * targetInput +
                x2 coeffs3D * targetOutput +
                x3 coeffs3D * t +
                x1_sq coeffs3D * targetInput * targetInput +
                x2_sq coeffs3D * targetOutput * targetOutput +
                x3_sq coeffs3D * t * t +
                x1x2 coeffs3D * targetInput * targetOutput +
                x1x3 coeffs3D * targetInput * t +
                x2x3 coeffs3D * targetOutput * t))))
      | None \<Rightarrow>
          thenE (fitPolynomialModel benchmarks m)
            (\<lambda>coeffs. Inr (Fin (max 0
               (intercept coeffs +
                x1 coeffs * targetInput +
                x2 coeffs * targetOutput +
                x1_sq coeffs * targetInput * targetInput +
                x2_sq coeffs * targetOutput * targetOutput +
                x1x2 coeffs * targetInput * targetOutput)))))"

definition performPolynomialInterpolation ::
  "benchmark list \<Rightarrow> real \<Rightarrow> real \<Rightarrow> real option \<Rightarrow> error + predictions" where
  "performPolynomialInterpolation benchmarks targetInput targetOutput targetTraffic =
     (let use3D = (targetTraffic \<noteq> None);
          e2eMetricsToPredict =
            (if use3D then e2e_mean # e2eRegressionMetrics else e2eRegressionMetrics);
          predict = polynomialPrediction benchmarks targetInput targetOutput targetTraffic
      in thenE (assignEach predict ttftMetrics Map.empty) (\<lambda>p1.
         thenE (assignEach predict tpsMetrics p1) (\<lambda>p2.
         thenE (assignEach predict e2eMetricsToPredict p2) (\<lambda>p3.
         thenE (assignEach predict [throughput] p3) (\<lambda>p4.
         Inr (if \<not> use3D then calculateE2EMeanMechanistically p4 (Fin targetOutput)
              else p4))))))"

text \<open>
  The keys that the four loops assign, in the order of assignment: with a target traffic
  level \<open>e2e_mean\<close> is among them, without one it is left to the mechanistic step.
\<close>

definition predictedMetrics :: "real option \<Rightarrow> metric list" where
  "predictedMetrics targetTraffic =
     ttftMetrics @ tpsMetrics @
     (if targetTraffic \<noteq> None then e2e_mean # e2eRegressionMetrics
      else e2eRegressionMetrics) @
     [throughput]"

section \<open>Confidence\<close>

text \<open>The distance that the loop of \<open>calculateConfidence\<close> computes for one benchmark.\<close>

definition normDistance :: "real \<Rightarrow> real \<Rightarrow> real \<Rightarrow> real \<Rightarrow> benchmark \<Rightarrow> real" where
  "normDistance inputRange outputRange targetInput targetOutput b =
     (let inputDist =
            (if inputRange > 0 then \<bar>input_avg_len b - targetInput\<bar> / inputRange else 0);
          outputDist =
            (if outputRange > 0 then \<bar>output_avg_len b - targetOutput\<bar> / outputRange else 0)
      in sqrt (inputDist * inputDist + outputDist * outputDist))"

text \<open>\<open>Math.min\<close> of the running \<open>minDistance\<close>, which starts as \<open>Infinity\<close>.\<close>

fun minWith :: "jsnum \<Rightarrow> real \<Rightarrow> jsnum" where
  "minWith (Fin a) d = Fin (min a d)"
| "minWith PInf d = Fin d"
| "minWith NInf d = NInf"
| "minWith NaN d = NaN"

text \<open>
  \<open>calculateConfidence\<close>. \<open>Math.max(...xs)\<close> and \<open>Math.min(...xs)\<close> of a non-empty
  list are its largest and smallest element. For an empty list they are \<open>-Infinity\<close>
  and \<open>Infinity\<close>: the loop does not run, \<open>minDistance\<close> stays \<open>Infinity\<close>,
  \<open>targetInput < minInput\<close> holds, and the result is \<open>low\<close>.
\<close>

definition calculateConfidence :: "benchmark list \<Rightarrow> real \<Rightarrow> real \<Rightarrow> Confidence" where
  "calculateConfidence benchmarks targetInput targetOutput =
     (case benchmarks of
        [] \<Rightarrow> Low
      | b # bs \<Rightarrow>
          (let maxInput = foldl max (input_avg_len b) (map input_avg_len bs);
               minInput = foldl min (input_avg_len b) (map input_avg_len bs);
               maxOutput = foldl max (output_avg_len b) (map output_avg_len bs);
               minOutput = foldl min (output_avg_len b) (map output_avg_len bs);
               inputRange = maxInput - minInput;
               outputRange = maxOutput - minOutput;
               minDistance =
                 foldl (\<lambda>d bm. minWith d
                          (normDistance inputRange outputRange targetInput targetOutput bm))
                   PInf benchmarks;
               isExtrapolating =
                 (targetInput < minInput \<or> targetInput > maxInput \<or>
                  targetOutput < minOutput \<or> targetOutput > maxOutput)
           in if jlt minDistance (Fin (1 / 10)) \<and> \<not> isExtrapolating then High
              else if jlt minDistance (Fin (3 / 10)) \<or> \<not> isExtrapolating then Medium
              else Low))"

section \<open>The three predictors\<close>

definition predictWithPolynomial ::
  "benchmark list \<Rightarrow> ModelingRequest \<Rightarrow> error + ModelingResult" where
  "predictWithPolynomial benchmarks request =
     thenE (performPolynomialInterpolation benchmarks
              (req_input_tokens request) (req_output_tokens request) (req_traffic_level request))
       (\<lambda>preds.
          (let confidence0 =
                 calculateConfidence benchmarks
                   (req_input_tokens request) (req_output_tokens request);
               confidence1 = (if length benchmarks < 3 then Low else confidence0)
           in Inr \<lparr> model = req_model request,
                    input_tokens = req_input_tokens request,
                    output_tokens = req_output_tokens request,
                    predictions = preds,
                    confidence = confidence1,
                    num_benchmarks_used = length benchmarks,
                    interpolation_method = ''polynomial_regression'' \<rparr>))"

definition predictWithLinear ::
  "benchmark list \<Rightarrow> ModelingRequest \<Rightarrow> error + ModelingResult" where
  "predictWithLinear benchmarks request =
     thenE (performMultivariateInterpolation benchmarks
              (req_input_tokens request) (req_output_tokens request) (req_traffic_level request))
       (\<lambda>preds.
          Inr \<lparr> model = req_model request,
                input_tokens = req_input_tokens request,
                output_tokens = req_output_tokens request,
                predictions = preds,
                confidence =
                  calculateConfidence benchmarks
                    (req_input_tokens request) (req_output_tokens request),
                num_benchmarks_used = length benchmarks,
                interpolation_method = ''multivariate_linear'' \<rparr>)"

section \<open>Linearity detection\<close>

datatype FitType = FitLinear | FitPolynomial

definition calculateR2 :: "benchmark list \<Rightarrow> metric \<Rightarrow> FitType \<Rightarrow> error + real" where
  "calculateR2 data m fitType =
     (let n = length data
      in if n < 2 then Inr 0
         else
           (let yActual = map (\<lambda>d. orElse (stat d m) 0) data;
                yMean = foldl (\<lambda>a b. a + b) 0 yActual / real n;
                yPredictedE =
                  (case fitType of
                     FitLinear \<Rightarrow>
                       (let coeffs = fitLinearModel data m
                        in Inr (map (\<lambda>d. intercept coeffs +
                                         inputCoeff coeffs * input_avg_len d +
                                         outputCoeff coeffs * output_avg_len d) data))
                   | FitPolynomial \<Rightarrow>
                       thenE (fitPolynomialModel data m)
                         (\<lambda>coeffs. Inr (map (\<lambda>d.
                            (let a = input_avg_len d; b = output_avg_len d
                             in intercept coeffs +
                                x1 coeffs * a +
                                x2 coeffs * b +
                                x1_sq coeffs * a * a +
                                x2_sq coeffs * b * b +
                                x1x2 coeffs * a * b)) data)))
            in thenE yPredictedE
                 (\<lambda>yPredicted.
                    (let ssRes =
                           foldl (\<lambda>sum i. sum + (yActual ! i - yPredicted ! i) ^ 2) 0 [0..<n];
                         ssTot = foldl (\<lambda>sum y. sum + (y - yMean) ^ 2) 0 yActual
                     in Inr (if ssTot = 0 then 0 else max 0 (1 - ssRes / ssTot))))))"

definition detectLinearity :: "benchmark list \<Rightarrow> error + bool" where
  "detectLinearity benchmarks =
     thenE (calculateR2 benchmarks ttft_mean FitLinear) (\<lambda>linearR2.
     thenE (calculateR2 benchmarks ttft_mean FitPolynomial) (\<lambda>polyR2.
       (let improvement = polyR2 - linearR2
        in Inr (improvement < 1 / 10 \<or> linearR2 > 85 / 100))))"

section \<open>Method selection\<close>

text \<open>
  \<open>hasVariation\<close>, computed alike by \<open>predictPerformance\<close> and \<open>predictAutoDetect\<close>:
  the sizes of the sets of rounded input and output lengths.
\<close>

definition hasVariation :: "benchmark list \<Rightarrow> bool" where
  "hasVariation benchmarks =
     (let uniqueInputs = set (map (\<lambda>b. Math_round (input_avg_len b)) benchmarks);
          uniqueOutputs = set (map (\<lambda>b. Math_round (output_avg_len b)) benchmarks)
      in card uniqueInputs \<ge> 2 \<or> card uniqueOutputs \<ge> 2)"

definition predictAutoDetect ::
  "benchmark list \<Rightarrow> ModelingRequest \<Rightarrow> error + ModelingResult" where
  "predictAutoDetect benchmarks request =
     (if length benchmarks = 1 \<or> \<not> hasVariation benchmarks
      then Inr ((predictWithAverage benchmarks request)
                  \<lparr> interpolation_method := ''auto_simple_average'' \<rparr>)
      else if length benchmarks < 3
      then thenE (predictWithLinear benchmarks request)
             (\<lambda>result. Inr (result \<lparr> interpolation_method := ''auto_linear'' \<rparr>))
      else thenE (detectLinearity benchmarks)
             (\<lambda>isLinear.
                if isLinear
                then thenE (predictWithLinear benchmarks request)
                       (\<lambda>result. Inr (result \<lparr> interpolation_method := ''auto_linear'' \<rparr>))
                else thenE (predictWithPolynomial benchmarks request)
                       (\<lambda>result. Inr (result \<lparr> interpolation_method := ''auto_polynomial'' \<rparr>))))"

text \<open>
  \<open>predictPerformance\<close>, from the point where the rows of the query are in
  \<open>benchmarks\<close>. The result \<open>None\<close> is the source's \<open>null\<close>.
\<close>

definition predictPerformance ::
  "benchmark list \<Rightarrow> ModelingRequest \<Rightarrow> error + ModelingResult option" where
  "predictPerformance benchmarks request =
     (if length benchmarks = 0 then Inr None
      else
        (let method = (case req_method request of None \<Rightarrow> Auto_detect | Some m \<Rightarrow> m);
             effectiveMethod =
               (if length benchmarks = 1 \<or> \<not> hasVariation benchmarks then Average
                else if length benchmarks < 3 \<and> method = Polynomial then Linear
                else method)
         in case effectiveMethod of
              Auto_detect \<Rightarrow>
                thenE (predictAutoDetect benchmarks request) (\<lambda>r. Inr (Some r))
            | Polynomial \<Rightarrow>
                thenE (predictWithPolynomial benchmarks request) (\<lambda>r. Inr (Some r))
            | Linear \<Rightarrow>
                thenE (predictWithLinear benchmarks request) (\<lambda>r. Inr (Some r))
            | Average \<Rightarrow> Inr (Some (predictWithAverage benchmarks request))))"

section \<open>The answer to a request\<close>

text \<open>
  A relation for the proofs, not a function of the source: what the result of
  \<open>predictPerformance\<close> holds, by the fitter that answered. It holds the averages
  with \<open>confidence: 'low'\<close>, or the predictions of one of the two interpolation
  methods at the target of the request with the label of \<open>calculateConfidence\<close>,
  under the method names that the predictors write.
\<close>

definition answeredBy ::
  "benchmark list \<Rightarrow> ModelingRequest \<Rightarrow> ModelingResult \<Rightarrow> bool" where
  "answeredBy bs request r =
     ((predictions r = performSimpleAveraging bs \<and> confidence r = Low \<and>
       (interpolation_method r = ''simple_average'' \<or>
        interpolation_method r = ''auto_simple_average''))
      \<or>
      (performMultivariateInterpolation bs (req_input_tokens request)
         (req_output_tokens request) (req_traffic_level request) = Inr (predictions r) \<and>
       confidence r = calculateConfidence bs (req_input_tokens request)
                        (req_output_tokens request) \<and>
       (interpolation_method r = ''multivariate_linear'' \<or>
        interpolation_method r = ''auto_linear''))
      \<or>
      (performPolynomialInterpolation bs (req_input_tokens request)
         (req_output_tokens request) (req_traffic_level request) = Inr (predictions r) \<and>
       confidence r = calculateConfidence bs (req_input_tokens request)
                        (req_output_tokens request) \<and>
       (interpolation_method r = ''polynomial_regression'' \<or>
        interpolation_method r = ''auto_polynomial'')))"

section \<open>Example benchmarks\<close>

text \<open>
  Rows as the query of \<open>predictPerformance\<close> returns them (ordered by input length,
  output length and traffic level), on which the first Gauss-Seidel sweep of
  \<open>solvePolynomial\<close> already solves the normal equations, so that the 100 sweeps
  can be followed by hand and every number is exact in doubles too.
  \<open>threePoints\<close>: three rows with \<open>e2e_mean = 20 - 10 * input + 10 * output\<close> and
  every other statistic 1. \<open>quarterPoints\<close>: two rows with
  \<open>e2e_mean = 20 - 40 * input + 40 * output\<close> whose input lengths and output
  lengths all round to 0.
\<close>

definition threePoints :: "benchmark list" where
  "threePoints =
     [\<lparr> input_avg_len = 0, output_avg_len = 0, traffic_level = Some 1,
         stat = (\<lambda>m. if m = e2e_mean then Some 20 else Some 1) \<rparr>,
      \<lparr> input_avg_len = 0, output_avg_len = 1, traffic_level = Some 2,
         stat = (\<lambda>m. if m = e2e_mean then Some 30 else Some 1) \<rparr>,
      \<lparr> input_avg_len = 1, output_avg_len = 0, traffic_level = Some 1,
         stat = (\<lambda>m. if m = e2e_mean then Some 10 else Some 1) \<rparr>]"

definition quarterPoints :: "benchmark list" where
  "quarterPoints =
     [\<lparr> input_avg_len = 0, output_avg_len = 1 / 4, traffic_level = Some 2,
         stat = (\<lambda>m. if m = e2e_mean then Some 30 else Some 1) \<rparr>,
      \<lparr> input_avg_len = 1 / 4, output_avg_len = 0, traffic_level = Some 1,
         stat = (\<lambda>m. if m = e2e_mean then Some 10 else Some 1) \<rparr>]"

section \<open>Basic facts\<close>

lemma foldl_add_sum_list:
  "foldl (\<lambda>s p. s + f p) a xs = (a::real) + sum_list (map f xs)"
  by (induction xs arbitrary: a) simp_all

lemma foldl_plus_sum_list:
  "foldl (\<lambda>a b. a + b) a xs = (a::real) + sum_list xs"
  by (induction xs arbitrary: a) simp_all

lemma thenE_Inr [simp]: "thenE (Inr v) k = k v"
  by (simp add: thenE_def)

lemma thenE_Inl [simp]: "thenE (Inl e) k = Inl e"
  by (simp add: thenE_def)

lemma assignEach_append:
  "assignEach f (xs @ ys) p = thenE (assignEach f xs p) (assignEach f ys)"
  by (induction xs arbitrary: p) (simp_all split: sum.splits)

lemma assignEach_total:
  "assignEach (\<lambda>m. Inr (g m)) ms p = Inr (\<lambda>k. if k \<in> set ms then Some (g k) else p k)"
proof (induction ms arbitrary: p)
  case Nil
  show ?case by simp
next
  case (Cons m ms)
  have "(\<lambda>k. if k \<in> set ms then Some (g k) else (p(m \<mapsto> g m)) k) =
        (\<lambda>k. if k \<in> set (m # ms) then Some (g k) else p k)"
    by (rule ext) simp
  then show ?case by (simp add: Cons.IH)
qed

lemma all_metrics: "m \<in> set metrics"
  by (cases m) (simp_all add: metrics_def)

lemma solvePolynomial_nonempty:
  "X \<noteq> [] \<Longrightarrow> \<exists>coeffs. solvePolynomial X y = Inr coeffs"
  by (cases X) (simp_all add: solvePolynomial_def Let_def)

lemma fitLinearModel3D_nonempty:
  assumes "bs \<noteq> []"
  shows "\<exists>c. fitLinearModel3D bs m = Inr c"
proof -
  from assms have "map linearRow3D bs \<noteq> []" by simp
  from solvePolynomial_nonempty [OF this]
  obtain coeffs where
    "solvePolynomial (map linearRow3D bs) (map (\<lambda>point. orElse (stat point m) 0) bs) = Inr coeffs"
    by blast
  then show ?thesis by (simp add: fitLinearModel3D_def)
qed

lemma fitPolynomialModel3D_nonempty:
  assumes "bs \<noteq> []"
  shows "\<exists>c. fitPolynomialModel3D bs m = Inr c"
proof -
  from assms have "map polyRow3D bs \<noteq> []" by simp
  from solvePolynomial_nonempty [OF this]
  obtain coeffs where
    "solvePolynomial (map polyRow3D bs) (map (\<lambda>point. orElse (stat point m) 0) bs) = Inr coeffs"
    by blast
  then show ?thesis by (simp add: fitPolynomialModel3D_def)
qed

lemma fitPolynomialModel_nonempty:
  assumes "bs \<noteq> []"
  shows "\<exists>c. fitPolynomialModel bs m = Inr c"
proof -
  from assms have "map polyRow bs \<noteq> []" by simp
  from solvePolynomial_nonempty [OF this]
  obtain coeffs where
    "solvePolynomial (map polyRow bs) (map (\<lambda>point. orElse (stat point m) 0) bs) = Inr coeffs"
    by blast
  then show ?thesis by (simp add: fitPolynomialModel_def)
qed

text \<open>The value that each predictor assigns to one metric, for non-empty data.\<close>

lemma linearPrediction_clamped:
  assumes "bs \<noteq> [] \<or> tt = None"
  shows "\<exists>v. linearPrediction bs ti to tt m = Inr (Fin v) \<and> 0 \<le> v"
proof (cases tt)
  case None
  then show ?thesis by (simp add: linearPrediction_def Let_def)
next
  case (Some t)
  with assms obtain c where "fitLinearModel3D bs m = Inr c"
    using fitLinearModel3D_nonempty by blast
  with Some show ?thesis by (simp add: linearPrediction_def)
qed

lemma polynomialPrediction_clamped:
  assumes "bs \<noteq> []"
  shows "\<exists>v. polynomialPrediction bs ti to tt m = Inr (Fin v) \<and> 0 \<le> v"
proof (cases tt)
  case None
  from assms obtain c where "fitPolynomialModel bs m = Inr c"
    using fitPolynomialModel_nonempty by blast
  with None show ?thesis by (simp add: polynomialPrediction_def)
next
  case (Some t)
  from assms obtain c where "fitPolynomialModel3D bs m = Inr c"
    using fitPolynomialModel3D_nonempty by blast
  with Some show ?thesis by (simp add: polynomialPrediction_def)
qed

text \<open>The four loops of an interpolation method as one.\<close>

lemma four_loops:
  "thenE (assignEach f ttftMetrics Map.empty) (\<lambda>p1.
   thenE (assignEach f tpsMetrics p1) (\<lambda>p2.
   thenE (assignEach f es p2) (\<lambda>p3.
   thenE (assignEach f [throughput] p3) k))) =
   thenE (assignEach f (ttftMetrics @ tpsMetrics @ es @ [throughput]) Map.empty) k"
proof -
  have assoc: "\<And>r g h. thenE (thenE r g) h = thenE r (\<lambda>v. thenE (g v) h)"
    by (simp add: thenE_def split: sum.splits)
  show ?thesis
    by (simp only: assignEach_append assoc)
qed

lemma performMultivariateInterpolation_loops:
  "performMultivariateInterpolation bs ti to tt =
     thenE (assignEach (linearPrediction bs ti to tt) (predictedMetrics tt) Map.empty)
       (\<lambda>p4. Inr (if tt = None then calculateE2EMeanMechanistically p4 (Fin to) else p4))"
  unfolding performMultivariateInterpolation_def Let_def four_loops predictedMetrics_def
  by (cases tt) simp_all

lemma performPolynomialInterpolation_loops:
  "performPolynomialInterpolation bs ti to tt =
     thenE (assignEach (polynomialPrediction bs ti to tt) (predictedMetrics tt) Map.empty)
       (\<lambda>p4. Inr (if tt = None then calculateE2EMeanMechanistically p4 (Fin to) else p4))"
  unfolding performPolynomialInterpolation_def Let_def four_loops predictedMetrics_def
  by (cases tt) simp_all


lemma assignEach_all_Inr:
  assumes "\<And>m. \<exists>v. f m = Inr v"
  shows "assignEach f ms p = Inr (\<lambda>k. if k \<in> set ms then Some (projr (f k)) else p k)"
proof -
  have "f = (\<lambda>m. Inr (projr (f m)))"
  proof (rule ext)
    fix m
    from assms obtain v where "f m = Inr v" by blast
    then show "f m = Inr (projr (f m))" by simp
  qed
  then have "assignEach f ms p = assignEach (\<lambda>m. Inr (projr (f m))) ms p"
    by simp
  then show ?thesis
    by (simp only: assignEach_total)
qed

lemma set_predictedMetrics_Some: "m \<in> set (predictedMetrics (Some t))"
  by (cases m) (simp_all add: predictedMetrics_def ttftMetrics_def tpsMetrics_def e2eRegressionMetrics_def)

lemma set_predictedMetrics_None: "m \<in> set (predictedMetrics None) \<longleftrightarrow> m \<noteq> e2e_mean"
  by (cases m) (simp_all add: predictedMetrics_def ttftMetrics_def tpsMetrics_def e2eRegressionMetrics_def)

lemma performMultivariateInterpolation_3D:
  assumes "bs \<noteq> []"
  shows "performMultivariateInterpolation bs ti to (Some t) =
           Inr (\<lambda>k. Some (projr (linearPrediction bs ti to (Some t) k)))"
proof -
  have "\<And>m. \<exists>v. linearPrediction bs ti to (Some t) m = Inr v"
    using linearPrediction_clamped [of bs "Some t" ti to] assms by blast
  from assignEach_all_Inr [of "linearPrediction bs ti to (Some t)", OF this]
  show ?thesis
    by (simp add: performMultivariateInterpolation_loops set_predictedMetrics_Some)
qed

lemma performMultivariateInterpolation_2D:
  "performMultivariateInterpolation bs ti to None =
     Inr (calculateE2EMeanMechanistically
            (\<lambda>k. if k \<noteq> e2e_mean then Some (projr (linearPrediction bs ti to None k)) else None)
            (Fin to))"
proof -
  have "\<And>m. \<exists>v. linearPrediction bs ti to None m = Inr v"
    using linearPrediction_clamped [of bs None ti to] by blast
  from assignEach_all_Inr [of "linearPrediction bs ti to None", OF this]
  show ?thesis
    by (simp add: performMultivariateInterpolation_loops set_predictedMetrics_None)
qed

lemma performPolynomialInterpolation_3D:
  assumes "bs \<noteq> []"
  shows "performPolynomialInterpolation bs ti to (Some t) =
           Inr (\<lambda>k. Some (projr (polynomialPrediction bs ti to (Some t) k)))"
proof -
  have "\<And>m. \<exists>v. polynomialPrediction bs ti to (Some t) m = Inr v"
    using polynomialPrediction_clamped [of bs ti to "Some t"] assms by blast
  from assignEach_all_Inr [of "polynomialPrediction bs ti to (Some t)", OF this]
  show ?thesis
    by (simp add: performPolynomialInterpolation_loops set_predictedMetrics_Some)
qed

lemma performPolynomialInterpolation_2D:
  assumes "bs \<noteq> []"
  shows "performPolynomialInterpolation bs ti to None =
     Inr (calculateE2EMeanMechanistically
            (\<lambda>k. if k \<noteq> e2e_mean then Some (projr (polynomialPrediction bs ti to None k)) else None)
            (Fin to))"
proof -
  have "\<And>m. \<exists>v. polynomialPrediction bs ti to None m = Inr v"
    using polynomialPrediction_clamped [of bs ti to None] assms by blast
  from assignEach_all_Inr [of "polynomialPrediction bs ti to None", OF this]
  show ?thesis
    by (simp add: performPolynomialInterpolation_loops set_predictedMetrics_None)
qed

text \<open>What the mechanistic step does to an object of finite, non-negative predictions.\<close>

lemma mechanistic_other_keys:
  "k \<noteq> e2e_mean \<Longrightarrow> calculateE2EMeanMechanistically preds out k = preds k"
  by (simp add: calculateE2EMeanMechanistically_def Let_def)

lemma mechanistic_positive_tps:
  assumes "preds ttft_mean = Some (Fin ttft)" and "preds user_tps_mean = Some (Fin tps)"
    and "0 < tps" and "0 \<le> ttft + out / tps * 1000"
  shows "calculateE2EMeanMechanistically preds (Fin out) e2e_mean =
           Some (Fin (ttft + out / tps * 1000))"
  using assms by (simp add: calculateE2EMeanMechanistically_def safeDivide_def Let_def)

lemma mechanistic_fallback:
  assumes "preds ttft_mean = Some (Fin ttft)"
    and "preds user_tps_mean = None \<or> preds user_tps_mean = Some NaN \<or>
         preds user_tps_mean = Some PInf \<or> preds user_tps_mean = Some NInf \<or>
         (\<exists>t. preds user_tps_mean = Some (Fin t) \<and> t \<le> 0)"
    and "0 \<le> ttft + out * 10 * 1000"
  shows "calculateE2EMeanMechanistically preds (Fin out) e2e_mean =
           Some (Fin (ttft + out * 10 * 1000))"
proof -
  from assms(2) have "safeDivide (Fin out) (preds user_tps_mean) (jmul (Fin out) (Fin 10)) =
                      Fin (out * 10)"
    by (auto simp: safeDivide_def)
  with assms(1,3) show ?thesis
    by (simp add: calculateE2EMeanMechanistically_def Let_def)
qed


lemma orElse_zero: "orElse x 0 = (case x of None \<Rightarrow> 0 | Some v \<Rightarrow> v)"
  by (cases x) simp_all

lemma foldl_assign:
  "foldl (\<lambda>preds m. preds(m \<mapsto> g m)) p ms k = (if k \<in> set ms then Some (g k) else p k)"
  by (induction ms arbitrary: p) simp_all

lemma performSimpleAveraging_key:
  "performSimpleAveraging benchmarks m = Some (averageOf benchmarks m)"
  by (simp add: performSimpleAveraging_def foldl_assign all_metrics)

lemma averageOf_nonempty:
  "benchmarks \<noteq> [] \<Longrightarrow>
   averageOf benchmarks m =
     Fin ((\<Sum>b\<leftarrow>benchmarks. case stat b m of None \<Rightarrow> 0 | Some v \<Rightarrow> v) / real (length benchmarks))"
  by (simp add: averageOf_def Let_def foldl_plus_sum_list orElse_zero comp_def)

lemma mechanistic_nonneg:
  assumes "preds ttft_mean = Some (Fin ttft)" and "0 \<le> ttft"
    and "preds user_tps_mean = Some (Fin tps)" and "0 \<le> out"
  shows "\<exists>v. calculateE2EMeanMechanistically preds (Fin out) e2e_mean = Some (Fin v) \<and> 0 \<le> v"
proof (cases "0 < tps")
  case True
  with assms(2,4) have "0 \<le> ttft + out / tps * 1000" by simp
  from mechanistic_positive_tps [OF assms(1,3) True this] this show ?thesis by simp
next
  case False
  then have "\<exists>t. preds user_tps_mean = Some (Fin t) \<and> t \<le> 0"
    using assms(3) by simp
  then have tps: "preds user_tps_mean = None \<or> preds user_tps_mean = Some NaN \<or>
         preds user_tps_mean = Some PInf \<or> preds user_tps_mean = Some NInf \<or>
         (\<exists>t. preds user_tps_mean = Some (Fin t) \<and> t \<le> 0)"
    by blast
  from assms(2,4) have nn: "0 \<le> ttft + out * 10 * 1000" by simp
  from mechanistic_fallback [OF assms(1) tps nn] nn show ?thesis by simp
qed

lemma interpolation_nonneg:
  assumes f: "\<And>k. \<exists>v. f k = Inr (Fin v) \<and> 0 \<le> v"
    and m: "tt \<noteq> None \<or> m \<noteq> e2e_mean \<or> 0 \<le> out"
  shows "\<exists>v. (if tt = None
              then calculateE2EMeanMechanistically
                     (\<lambda>k. if k \<noteq> e2e_mean then Some (projr (f k)) else None) (Fin out)
              else (\<lambda>k. Some (projr (f k)))) m = Some (Fin v) \<and> 0 \<le> v"
proof -
  let ?P = "\<lambda>k. if k \<noteq> e2e_mean then Some (projr (f k)) else None"
  from f obtain v where v: "f m = Inr (Fin v)" "0 \<le> v" by blast
  show ?thesis
  proof (cases "tt = None")
    case False
    with v show ?thesis by auto
  next
    case True
    show ?thesis
    proof (cases "m = e2e_mean")
      case False
      with True v show ?thesis by (simp add: mechanistic_other_keys)
    next
      case e2e: True
      with True m have out: "0 \<le> out" by simp
      from f obtain a where a: "f ttft_mean = Inr (Fin a)" "0 \<le> a" by blast
      from f obtain t where t: "f user_tps_mean = Inr (Fin t)" "0 \<le> t" by blast
      have "?P ttft_mean = Some (Fin a)" "?P user_tps_mean = Some (Fin t)"
        using a t by simp_all
      from mechanistic_nonneg [OF this(1) a(2) this(2) out] True e2e
      show ?thesis by simp
    qed
  qed
qed

lemma averageOf_nonneg:
  assumes "benchmarks \<noteq> []"
    and "\<forall>b\<in>set benchmarks. \<forall>v. stat b m = Some v \<longrightarrow> 0 \<le> v"
  shows "\<exists>v. averageOf benchmarks m = Fin v \<and> 0 \<le> v"
proof -
  have "0 \<le> (\<Sum>b\<leftarrow>benchmarks. case stat b m of None \<Rightarrow> 0 | Some v \<Rightarrow> v)"
  proof (rule sum_list_nonneg)
    fix x assume "x \<in> set (map (\<lambda>b. case stat b m of None \<Rightarrow> 0 | Some v \<Rightarrow> v) benchmarks)"
    then obtain b where "b \<in> set benchmarks" "x = (case stat b m of None \<Rightarrow> 0 | Some v \<Rightarrow> v)"
      by auto
    with assms(2) show "0 \<le> x" by (cases "stat b m") auto
  qed
  then show ?thesis
    by (simp add: averageOf_nonempty [OF assms(1)])
qed


lemma linearPrediction_no_tps:
  "linearPrediction
     [\<lparr> input_avg_len = 100, output_avg_len = 50, traffic_level = None,
         stat = (\<lambda>m. if m = ttft_mean then Some 100 else None) \<rparr>,
      \<lparr> input_avg_len = 200, output_avg_len = 100, traffic_level = None,
         stat = (\<lambda>m. if m = ttft_mean then Some 100 else None) \<rparr>]
     ti to None m =
   Inr (Fin (if m = ttft_mean then 100 else 0))"
  by (simp add: linearPrediction_def fitLinearModel_def Let_def)


text \<open>Gauss-Seidel sweeps that no longer change the coefficients after the first one.\<close>

lemma sweeps_fixpoint:
  "g c = c \<Longrightarrow> foldl (\<lambda>coeffs iter. g coeffs) c iters = c"
  by (induction iters) simp_all

lemma sweeps_after_first:
  assumes "g (g c) = g c"
  shows "foldl (\<lambda>coeffs iter. g coeffs) c [0..<100] = g c"
proof -
  have "[0..<100] = 0 # [1..<100]" by (simp add: upt_conv_Cons)
  with sweeps_fixpoint [of g "g c" "[1..<100]", OF assms] show ?thesis by simp
qed

lemma upt_4: "[0..<4] = [0, 1, 2, 3]"
  by (simp add: upt_conv_Cons)

text \<open>For non-empty benchmarks no method throws, and the method names are these.\<close>

lemma performMultivariateInterpolation_total:
  assumes "bs \<noteq> []"
  shows "\<exists>p. performMultivariateInterpolation bs ti to tt = Inr p"
proof (cases tt)
  case None
  show ?thesis unfolding None by (simp add: performMultivariateInterpolation_2D)
next
  case (Some t)
  show ?thesis unfolding Some by (simp add: performMultivariateInterpolation_3D [OF assms])
qed

lemma performPolynomialInterpolation_total:
  assumes "bs \<noteq> []"
  shows "\<exists>p. performPolynomialInterpolation bs ti to tt = Inr p"
proof (cases tt)
  case None
  show ?thesis unfolding None by (simp add: performPolynomialInterpolation_2D [OF assms])
next
  case (Some t)
  show ?thesis unfolding Some by (simp add: performPolynomialInterpolation_3D [OF assms])
qed

lemma predictWithLinear_total:
  assumes "bs \<noteq> []"
  shows "\<exists>r. predictWithLinear bs request = Inr r \<and>
             interpolation_method r = ''multivariate_linear''"
proof -
  from performMultivariateInterpolation_total [OF assms]
  obtain p where "performMultivariateInterpolation bs (req_input_tokens request)
                    (req_output_tokens request) (req_traffic_level request) = Inr p"
    by blast
  then show ?thesis by (simp add: predictWithLinear_def)
qed

lemma predictWithPolynomial_total:
  assumes "bs \<noteq> []"
  shows "\<exists>r. predictWithPolynomial bs request = Inr r \<and>
             interpolation_method r = ''polynomial_regression''"
proof -
  from performPolynomialInterpolation_total [OF assms]
  obtain p where "performPolynomialInterpolation bs (req_input_tokens request)
                    (req_output_tokens request) (req_traffic_level request) = Inr p"
    by blast
  then show ?thesis by (simp add: predictWithPolynomial_def Let_def)
qed

lemma calculateR2_total:
  assumes "bs \<noteq> []"
  shows "\<exists>r. calculateR2 bs m fitType = Inr r"
proof (cases fitType)
  case FitLinear
  then show ?thesis by (simp add: calculateR2_def Let_def)
next
  case FitPolynomial
  from fitPolynomialModel_nonempty [OF assms] obtain c where "fitPolynomialModel bs m = Inr c"
    by blast
  with FitPolynomial show ?thesis by (simp add: calculateR2_def Let_def)
qed

lemma detectLinearity_total:
  assumes "bs \<noteq> []"
  shows "\<exists>isLinear. detectLinearity bs = Inr isLinear"
proof -
  from calculateR2_total [OF assms] obtain l where "calculateR2 bs ttft_mean FitLinear = Inr l"
    by blast
  moreover from calculateR2_total [OF assms]
  obtain q where "calculateR2 bs ttft_mean FitPolynomial = Inr q"
    by blast
  ultimately show ?thesis by (simp add: detectLinearity_def Let_def)
qed

lemma predictAutoDetect_method:
  assumes "bs \<noteq> []"
  shows "\<exists>r. predictAutoDetect bs request = Inr r \<and>
           (if length bs = 1 \<or> \<not> hasVariation bs
            then interpolation_method r = ''auto_simple_average''
            else if length bs < 3 then interpolation_method r = ''auto_linear''
            else interpolation_method r = ''auto_linear'' \<or>
                 interpolation_method r = ''auto_polynomial'')"
proof -
  from predictWithLinear_total [OF assms] obtain rl where
    rl: "predictWithLinear bs request = Inr rl" by blast
  from predictWithPolynomial_total [OF assms] obtain rp where
    rp: "predictWithPolynomial bs request = Inr rp" by blast
  from detectLinearity_total [OF assms] obtain isLinear where
    dl: "detectLinearity bs = Inr isLinear" by blast
  show ?thesis
    by (cases isLinear) (simp_all add: predictAutoDetect_def rl rp dl)
qed

lemma hasVariation_card:
  "hasVariation bs \<longleftrightarrow>
     2 \<le> card ((\<lambda>b. Math_round (input_avg_len b)) ` set bs) \<or>
     2 \<le> card ((\<lambda>b. Math_round (output_avg_len b)) ` set bs)"
  by (simp add: hasVariation_def Let_def)

lemma predictPerformance_method:
  assumes "bs \<noteq> []"
  shows "\<exists>r. predictPerformance bs request = Inr (Some r) \<and>
           (if length bs = 1 \<or> \<not> hasVariation bs
            then interpolation_method r = ''simple_average''
            else if length bs < 3
            then (case req_method request of
                    None \<Rightarrow> interpolation_method r = ''auto_linear''
                  | Some Auto_detect \<Rightarrow> interpolation_method r = ''auto_linear''
                  | Some Polynomial \<Rightarrow> interpolation_method r = ''multivariate_linear''
                  | Some Linear \<Rightarrow> interpolation_method r = ''multivariate_linear''
                  | Some Average \<Rightarrow> interpolation_method r = ''simple_average'')
            else (case req_method request of
                    None \<Rightarrow> interpolation_method r = ''auto_linear'' \<or>
                            interpolation_method r = ''auto_polynomial''
                  | Some Auto_detect \<Rightarrow> interpolation_method r = ''auto_linear'' \<or>
                            interpolation_method r = ''auto_polynomial''
                  | Some Polynomial \<Rightarrow> interpolation_method r = ''polynomial_regression''
                  | Some Linear \<Rightarrow> interpolation_method r = ''multivariate_linear''
                  | Some Average \<Rightarrow> interpolation_method r = ''simple_average''))"
proof -
  from predictWithLinear_total [OF assms] obtain rl where
    rl: "predictWithLinear bs request = Inr rl"
        "interpolation_method rl = ''multivariate_linear''" by blast
  from predictWithPolynomial_total [OF assms] obtain rp where
    rp: "predictWithPolynomial bs request = Inr rp"
        "interpolation_method rp = ''polynomial_regression''" by blast
  from predictAutoDetect_method [OF assms] obtain ra where
    ra: "predictAutoDetect bs request = Inr ra"
        "if length bs = 1 \<or> \<not> hasVariation bs
            then interpolation_method ra = ''auto_simple_average''
            else if length bs < 3 then interpolation_method ra = ''auto_linear''
            else interpolation_method ra = ''auto_linear'' \<or>
                 interpolation_method ra = ''auto_polynomial''" by blast
  have avg: "interpolation_method (predictWithAverage bs request) = ''simple_average''"
    by (simp add: predictWithAverage_def)
  show ?thesis
  proof (cases "length bs = 1 \<or> \<not> hasVariation bs")
    case True
    with assms show ?thesis
      by (simp add: predictPerformance_def avg)
  next
    case False
    with assms rl rp ra avg show ?thesis
      by (auto simp: predictPerformance_def Let_def split: option.splits PredictionMethod.splits)
  qed
qed

text \<open>The folds of \<open>calculateConfidence\<close> as extreme values.\<close>

lemma foldl_max_Max: "foldl max (a::real) xs = Max (set (a # xs))"
proof -
  have "(\<lambda>x s. max s x) = (max :: real \<Rightarrow> real \<Rightarrow> real)"
    by (intro ext) (simp add: max.commute)
  then show ?thesis
    unfolding foldl_conv_fold by (simp only: Max.set_eq_fold)
qed

lemma foldl_min_Min: "foldl min (a::real) xs = Min (set (a # xs))"
proof -
  have "(\<lambda>x s. min s x) = (min :: real \<Rightarrow> real \<Rightarrow> real)"
    by (intro ext) (simp add: min.commute)
  then show ?thesis
    unfolding foldl_conv_fold by (simp only: Min.set_eq_fold)
qed

lemma foldl_minWith_Fin:
  "foldl (\<lambda>d bm. minWith d (g bm)) (Fin a) bs = Fin (foldl min a (map g bs))"
  by (induction bs arbitrary: a) simp_all

lemma minDistance_Min:
  "foldl (\<lambda>d bm. minWith d (g bm)) PInf (b # bs) = Fin (Min (g ` set (b # bs)))"
  by (simp add: foldl_minWith_Fin foldl_min_Min)

lemma normDistance_same:
  "input_avg_len b = ti \<Longrightarrow> output_avg_len b = to \<Longrightarrow> normDistance rx ry ti to b = 0"
  by (simp add: normDistance_def Let_def)

text \<open>\<open>calculateConfidence\<close> in terms of the extreme values of the benchmarks.\<close>

lemma calculateConfidence_nonempty:
  assumes "benchmarks \<noteq> []"
  shows "calculateConfidence benchmarks ti to =
     (let maxInput = Max (input_avg_len ` set benchmarks);
          minInput = Min (input_avg_len ` set benchmarks);
          maxOutput = Max (output_avg_len ` set benchmarks);
          minOutput = Min (output_avg_len ` set benchmarks);
          minDistance = Min (normDistance (maxInput - minInput) (maxOutput - minOutput) ti to
                              ` set benchmarks);
          isExtrapolating = (ti < minInput \<or> ti > maxInput \<or> to < minOutput \<or> to > maxOutput)
      in if minDistance < 1 / 10 \<and> \<not> isExtrapolating then High
         else if minDistance < 3 / 10 \<or> \<not> isExtrapolating then Medium
         else Low)"
proof -
  from assms obtain b bs where bs: "benchmarks = b # bs" by (cases benchmarks) auto
  have ext: "foldl max (f b) (map f bs) = Max (f ` set (b # bs))"
            "foldl min (f b) (map f bs) = Min (f ` set (b # bs))" for f :: "benchmark \<Rightarrow> real"
    by (simp_all only: foldl_max_Max foldl_min_Min list.set image_insert image_set)
  show ?thesis
    unfolding bs calculateConfidence_def list.case Let_def
    by (simp only: ext minDistance_Min jlt.simps)
qed


text \<open>What \<open>predictPerformance\<close> returns, by the fitter that answers.\<close>

lemma predictWithLinear_result:
  assumes "bs \<noteq> []"
  shows "\<exists>r. predictWithLinear bs request = Inr r \<and>
           interpolation_method r = ''multivariate_linear'' \<and>
           performMultivariateInterpolation bs (req_input_tokens request)
             (req_output_tokens request) (req_traffic_level request) = Inr (predictions r) \<and>
           confidence r = calculateConfidence bs (req_input_tokens request)
                            (req_output_tokens request)"
proof -
  from performMultivariateInterpolation_total [OF assms]
  obtain p where "performMultivariateInterpolation bs (req_input_tokens request)
                    (req_output_tokens request) (req_traffic_level request) = Inr p"
    by blast
  then show ?thesis by (simp add: predictWithLinear_def)
qed

lemma predictWithPolynomial_result:
  assumes "bs \<noteq> []"
  shows "\<exists>r. predictWithPolynomial bs request = Inr r \<and>
           interpolation_method r = ''polynomial_regression'' \<and>
           performPolynomialInterpolation bs (req_input_tokens request)
             (req_output_tokens request) (req_traffic_level request) = Inr (predictions r) \<and>
           confidence r = (if length bs < 3 then Low
                           else calculateConfidence bs (req_input_tokens request)
                                  (req_output_tokens request))"
proof -
  from performPolynomialInterpolation_total [OF assms]
  obtain p where "performPolynomialInterpolation bs (req_input_tokens request)
                    (req_output_tokens request) (req_traffic_level request) = Inr p"
    by blast
  then show ?thesis by (simp add: predictWithPolynomial_def Let_def)
qed

lemma predictAutoDetect_result:
  assumes "bs \<noteq> []"
  shows "\<exists>r. predictAutoDetect bs request = Inr r \<and> answeredBy bs request r"
proof -
  from predictWithLinear_result [OF assms] obtain rl where
    rl: "predictWithLinear bs request = Inr rl"
        "performMultivariateInterpolation bs (req_input_tokens request)
             (req_output_tokens request) (req_traffic_level request) = Inr (predictions rl)"
        "confidence rl = calculateConfidence bs (req_input_tokens request)
                            (req_output_tokens request)"
    by blast
  from predictWithPolynomial_result [OF assms] obtain rp where
    rp: "predictWithPolynomial bs request = Inr rp"
        "performPolynomialInterpolation bs (req_input_tokens request)
             (req_output_tokens request) (req_traffic_level request) = Inr (predictions rp)"
        "confidence rp = (if length bs < 3 then Low
                           else calculateConfidence bs (req_input_tokens request)
                                  (req_output_tokens request))"
    by blast
  from detectLinearity_total [OF assms] obtain isLinear where
    dl: "detectLinearity bs = Inr isLinear" by blast
  show ?thesis
    by (cases isLinear)
       (simp_all add: predictAutoDetect_def rl rp dl answeredBy_def predictWithAverage_def)
qed

lemma predictPerformance_result:
  assumes "bs \<noteq> []"
  shows "\<exists>r. predictPerformance bs request = Inr (Some r) \<and> answeredBy bs request r"
proof -
  from predictWithLinear_result [OF assms] obtain rl where
    rl: "predictWithLinear bs request = Inr rl"
        "interpolation_method rl = ''multivariate_linear''"
        "performMultivariateInterpolation bs (req_input_tokens request)
             (req_output_tokens request) (req_traffic_level request) = Inr (predictions rl)"
        "confidence rl = calculateConfidence bs (req_input_tokens request)
                            (req_output_tokens request)"
    by blast
  from predictWithPolynomial_result [OF assms] obtain rp where
    rp: "predictWithPolynomial bs request = Inr rp"
        "interpolation_method rp = ''polynomial_regression''"
        "performPolynomialInterpolation bs (req_input_tokens request)
             (req_output_tokens request) (req_traffic_level request) = Inr (predictions rp)"
        "confidence rp = (if length bs < 3 then Low
                           else calculateConfidence bs (req_input_tokens request)
                                  (req_output_tokens request))"
    by blast
  from predictAutoDetect_result [OF assms] obtain ra where
    ra: "predictAutoDetect bs request = Inr ra" "answeredBy bs request ra" by blast
  have avg: "answeredBy bs request (predictWithAverage bs request)"
    by (simp add: answeredBy_def predictWithAverage_def)
  show ?thesis
  proof (cases "length bs = 1 \<or> \<not> hasVariation bs")
    case True
    with assms avg show ?thesis
      by (simp add: predictPerformance_def)
  next
    case False
    with assms rl rp ra avg show ?thesis
      by (auto simp: predictPerformance_def Let_def answeredBy_def
               split: option.splits PredictionMethod.splits)
  qed
qed

text \<open>The solver on the example benchmarks.\<close>

lemma solvePolynomial_fixpoint:
  assumes X: "X = row0 # rest" and m: "length row0 = m"
    and first: "gsSweep (XtX_of X m) (Xty_of X y m) m (replicate m 0) = c"
    and again: "gsSweep (XtX_of X m) (Xty_of X y m) m c = c"
  shows "solvePolynomial X y = Inr c"
proof -
  let ?g = "gsSweep (XtX_of X m) (Xty_of X y m) m"
  have "?g (?g (replicate m 0)) = ?g (replicate m 0)"
    by (simp only: first again)
  from sweeps_after_first [of ?g "replicate m 0", OF this]
  have "foldl (\<lambda>coeffs iter. ?g coeffs) (replicate m 0) [0..<100] = c"
    by (simp only: first)
  moreover have "solvePolynomial X y =
                 Inr (foldl (\<lambda>coeffs iter. ?g coeffs) (replicate m 0) [0..<100])"
    unfolding solvePolynomial_def by (simp only: X list.case Let_def m)
  ultimately show ?thesis by simp
qed

lemma upt_3: "[0..<3] = [0, 1, 2]"
  by (simp add: upt_conv_Cons)

lemma upt_2: "[0..<2] = [0, 1]"
  by (simp add: upt_conv_Cons)

lemma upt_10: "[0..<10] = [0, 1, 2, 3, 4, 5, 6, 7, 8, 9]"
  by (simp add: upt_conv_Cons)

lemma solve_linear_three:
  "solvePolynomial
     [[1, 0, 0, 1], [1, 0, 1, 2], [1, 1, 0, 1]]
     [20, 30, 10] =
   Inr [20, - 10, 10, 0]"
proof (rule solvePolynomial_fixpoint [where m = 4 and ?row0.0 = "[1, 0, 0, 1]"
         and rest = "[[1, 0, 1, 2], [1, 1, 0, 1]]"])
  let ?X = "[[1, 0, 0, 1], [1, 0, 1, 2], [1, 1, 0, 1 :: real]]"
  let ?y = "[20, 30, 10 :: real]"
  have XtX: "XtX_of ?X 4 =
      [[3, 1, 1, 4],
       [1, 1, 0, 1],
       [1, 0, 1, 2],
       [4, 1, 2, 6]]"
    by (simp add: XtX_of_def upt_4 upt_3)
  have Xty: "Xty_of ?X ?y 4 = [60, 10, 30, 90]"
    by (simp add: Xty_of_def upt_4 upt_3)
  show "gsSweep (XtX_of ?X 4) (Xty_of ?X ?y 4) 4 (replicate 4 0) =
        [20, - 10, 10, 0]"
    unfolding XtX Xty by (simp add: gsSweep_def gsUpdate_def upt_4 numeral_eq_Suc)
  show "gsSweep (XtX_of ?X 4) (Xty_of ?X ?y 4) 4 [20, - 10, 10, 0] =
        [20, - 10, 10, 0]"
    unfolding XtX Xty by (simp add: gsSweep_def gsUpdate_def upt_4)
qed simp_all

lemma solve_linear_three_ones:
  "solvePolynomial
     [[1, 0, 0, 1], [1, 0, 1, 2], [1, 1, 0, 1]]
     [1, 1, 1] =
   Inr [1, 0, 0, 0]"
proof (rule solvePolynomial_fixpoint [where m = 4 and ?row0.0 = "[1, 0, 0, 1]"
         and rest = "[[1, 0, 1, 2], [1, 1, 0, 1]]"])
  let ?X = "[[1, 0, 0, 1], [1, 0, 1, 2], [1, 1, 0, 1 :: real]]"
  let ?y = "[1, 1, 1 :: real]"
  have XtX: "XtX_of ?X 4 =
      [[3, 1, 1, 4],
       [1, 1, 0, 1],
       [1, 0, 1, 2],
       [4, 1, 2, 6]]"
    by (simp add: XtX_of_def upt_4 upt_3)
  have Xty: "Xty_of ?X ?y 4 = [3, 1, 1, 4]"
    by (simp add: Xty_of_def upt_4 upt_3)
  show "gsSweep (XtX_of ?X 4) (Xty_of ?X ?y 4) 4 (replicate 4 0) =
        [1, 0, 0, 0]"
    unfolding XtX Xty by (simp add: gsSweep_def gsUpdate_def upt_4 numeral_eq_Suc)
  show "gsSweep (XtX_of ?X 4) (Xty_of ?X ?y 4) 4 [1, 0, 0, 0] =
        [1, 0, 0, 0]"
    unfolding XtX Xty by (simp add: gsSweep_def gsUpdate_def upt_4)
qed simp_all

lemma solve_polynomial_three:
  "solvePolynomial
     [[1, 0, 0, 1, 0, 0, 1, 0, 0, 0], [1, 0, 1, 2, 0, 1, 4, 0, 0, 2], [1, 1, 0, 1, 1, 0, 1, 0, 1, 0]]
     [20, 30, 10] =
   Inr [20, - 10, 10, 0, 0, 0, 0, 0, 0, 0]"
proof (rule solvePolynomial_fixpoint [where m = 10 and ?row0.0 = "[1, 0, 0, 1, 0, 0, 1, 0, 0, 0]"
         and rest = "[[1, 0, 1, 2, 0, 1, 4, 0, 0, 2], [1, 1, 0, 1, 1, 0, 1, 0, 1, 0]]"])
  let ?X = "[[1, 0, 0, 1, 0, 0, 1, 0, 0, 0], [1, 0, 1, 2, 0, 1, 4, 0, 0, 2], [1, 1, 0, 1, 1, 0, 1, 0, 1, 0 :: real]]"
  let ?y = "[20, 30, 10 :: real]"
  have XtX: "XtX_of ?X 10 =
      [[3, 1, 1, 4, 1, 1, 6, 0, 1, 2],
       [1, 1, 0, 1, 1, 0, 1, 0, 1, 0],
       [1, 0, 1, 2, 0, 1, 4, 0, 0, 2],
       [4, 1, 2, 6, 1, 2, 10, 0, 1, 4],
       [1, 1, 0, 1, 1, 0, 1, 0, 1, 0],
       [1, 0, 1, 2, 0, 1, 4, 0, 0, 2],
       [6, 1, 4, 10, 1, 4, 18, 0, 1, 8],
       [0, 0, 0, 0, 0, 0, 0, 0, 0, 0],
       [1, 1, 0, 1, 1, 0, 1, 0, 1, 0],
       [2, 0, 2, 4, 0, 2, 8, 0, 0, 4]]"
    by (simp add: XtX_of_def upt_10 upt_3)
  have Xty: "Xty_of ?X ?y 10 = [60, 10, 30, 90, 10, 30, 150, 0, 10, 60]"
    by (simp add: Xty_of_def upt_10 upt_3)
  show "gsSweep (XtX_of ?X 10) (Xty_of ?X ?y 10) 10 (replicate 10 0) =
        [20, - 10, 10, 0, 0, 0, 0, 0, 0, 0]"
    unfolding XtX Xty by (simp add: gsSweep_def gsUpdate_def upt_10 numeral_eq_Suc)
  show "gsSweep (XtX_of ?X 10) (Xty_of ?X ?y 10) 10 [20, - 10, 10, 0, 0, 0, 0, 0, 0, 0] =
        [20, - 10, 10, 0, 0, 0, 0, 0, 0, 0]"
    unfolding XtX Xty by (simp add: gsSweep_def gsUpdate_def upt_10)
qed simp_all

lemma solve_polynomial_three_ones:
  "solvePolynomial
     [[1, 0, 0, 1, 0, 0, 1, 0, 0, 0], [1, 0, 1, 2, 0, 1, 4, 0, 0, 2], [1, 1, 0, 1, 1, 0, 1, 0, 1, 0]]
     [1, 1, 1] =
   Inr [1, 0, 0, 0, 0, 0, 0, 0, 0, 0]"
proof (rule solvePolynomial_fixpoint [where m = 10 and ?row0.0 = "[1, 0, 0, 1, 0, 0, 1, 0, 0, 0]"
         and rest = "[[1, 0, 1, 2, 0, 1, 4, 0, 0, 2], [1, 1, 0, 1, 1, 0, 1, 0, 1, 0]]"])
  let ?X = "[[1, 0, 0, 1, 0, 0, 1, 0, 0, 0], [1, 0, 1, 2, 0, 1, 4, 0, 0, 2], [1, 1, 0, 1, 1, 0, 1, 0, 1, 0 :: real]]"
  let ?y = "[1, 1, 1 :: real]"
  have XtX: "XtX_of ?X 10 =
      [[3, 1, 1, 4, 1, 1, 6, 0, 1, 2],
       [1, 1, 0, 1, 1, 0, 1, 0, 1, 0],
       [1, 0, 1, 2, 0, 1, 4, 0, 0, 2],
       [4, 1, 2, 6, 1, 2, 10, 0, 1, 4],
       [1, 1, 0, 1, 1, 0, 1, 0, 1, 0],
       [1, 0, 1, 2, 0, 1, 4, 0, 0, 2],
       [6, 1, 4, 10, 1, 4, 18, 0, 1, 8],
       [0, 0, 0, 0, 0, 0, 0, 0, 0, 0],
       [1, 1, 0, 1, 1, 0, 1, 0, 1, 0],
       [2, 0, 2, 4, 0, 2, 8, 0, 0, 4]]"
    by (simp add: XtX_of_def upt_10 upt_3)
  have Xty: "Xty_of ?X ?y 10 = [3, 1, 1, 4, 1, 1, 6, 0, 1, 2]"
    by (simp add: Xty_of_def upt_10 upt_3)
  show "gsSweep (XtX_of ?X 10) (Xty_of ?X ?y 10) 10 (replicate 10 0) =
        [1, 0, 0, 0, 0, 0, 0, 0, 0, 0]"
    unfolding XtX Xty by (simp add: gsSweep_def gsUpdate_def upt_10 numeral_eq_Suc)
  show "gsSweep (XtX_of ?X 10) (Xty_of ?X ?y 10) 10 [1, 0, 0, 0, 0, 0, 0, 0, 0, 0] =
        [1, 0, 0, 0, 0, 0, 0, 0, 0, 0]"
    unfolding XtX Xty by (simp add: gsSweep_def gsUpdate_def upt_10)
qed simp_all

lemma solve_linear_quarter:
  "solvePolynomial
     [[1, 0, 1 / 4, 2], [1, 1 / 4, 0, 1]]
     [30, 10] =
   Inr [20, - 40, 40, 0]"
proof (rule solvePolynomial_fixpoint [where m = 4 and ?row0.0 = "[1, 0, 1 / 4, 2]"
         and rest = "[[1, 1 / 4, 0, 1]]"])
  let ?X = "[[1, 0, 1 / 4, 2], [1, 1 / 4, 0, 1 :: real]]"
  let ?y = "[30, 10 :: real]"
  have XtX: "XtX_of ?X 4 =
      [[2, 1 / 4, 1 / 4, 3],
       [1 / 4, 1 / 16, 0, 1 / 4],
       [1 / 4, 0, 1 / 16, 1 / 2],
       [3, 1 / 4, 1 / 2, 5]]"
    by (simp add: XtX_of_def upt_4 upt_2)
  have Xty: "Xty_of ?X ?y 4 = [40, 5 / 2, 15 / 2, 70]"
    by (simp add: Xty_of_def upt_4 upt_2)
  show "gsSweep (XtX_of ?X 4) (Xty_of ?X ?y 4) 4 (replicate 4 0) =
        [20, - 40, 40, 0]"
    unfolding XtX Xty by (simp add: gsSweep_def gsUpdate_def upt_4 numeral_eq_Suc)
  show "gsSweep (XtX_of ?X 4) (Xty_of ?X ?y 4) 4 [20, - 40, 40, 0] =
        [20, - 40, 40, 0]"
    unfolding XtX Xty by (simp add: gsSweep_def gsUpdate_def upt_4)
qed simp_all

lemma solve_polynomial_quarter:
  "solvePolynomial
     [[1, 0, 1 / 4, 2, 0, 1 / 16, 4, 0, 0, 1 / 2], [1, 1 / 4, 0, 1, 1 / 16, 0, 1, 0, 1 / 4, 0]]
     [30, 10] =
   Inr [20, - 40, 40, 0, 0, 0, 0, 0, 0, 0]"
proof (rule solvePolynomial_fixpoint [where m = 10 and ?row0.0 = "[1, 0, 1 / 4, 2, 0, 1 / 16, 4, 0, 0, 1 / 2]"
         and rest = "[[1, 1 / 4, 0, 1, 1 / 16, 0, 1, 0, 1 / 4, 0]]"])
  let ?X = "[[1, 0, 1 / 4, 2, 0, 1 / 16, 4, 0, 0, 1 / 2], [1, 1 / 4, 0, 1, 1 / 16, 0, 1, 0, 1 / 4, 0 :: real]]"
  let ?y = "[30, 10 :: real]"
  have XtX: "XtX_of ?X 10 =
      [[2, 1 / 4, 1 / 4, 3, 1 / 16, 1 / 16, 5, 0, 1 / 4, 1 / 2],
       [1 / 4, 1 / 16, 0, 1 / 4, 1 / 64, 0, 1 / 4, 0, 1 / 16, 0],
       [1 / 4, 0, 1 / 16, 1 / 2, 0, 1 / 64, 1, 0, 0, 1 / 8],
       [3, 1 / 4, 1 / 2, 5, 1 / 16, 1 / 8, 9, 0, 1 / 4, 1],
       [1 / 16, 1 / 64, 0, 1 / 16, 1 / 256, 0, 1 / 16, 0, 1 / 64, 0],
       [1 / 16, 0, 1 / 64, 1 / 8, 0, 1 / 256, 1 / 4, 0, 0, 1 / 32],
       [5, 1 / 4, 1, 9, 1 / 16, 1 / 4, 17, 0, 1 / 4, 2],
       [0, 0, 0, 0, 0, 0, 0, 0, 0, 0],
       [1 / 4, 1 / 16, 0, 1 / 4, 1 / 64, 0, 1 / 4, 0, 1 / 16, 0],
       [1 / 2, 0, 1 / 8, 1, 0, 1 / 32, 2, 0, 0, 1 / 4]]"
    by (simp add: XtX_of_def upt_10 upt_2)
  have Xty: "Xty_of ?X ?y 10 = [40, 5 / 2, 15 / 2, 70, 5 / 8, 15 / 8, 130, 0, 5 / 2, 15]"
    by (simp add: Xty_of_def upt_10 upt_2)
  show "gsSweep (XtX_of ?X 10) (Xty_of ?X ?y 10) 10 (replicate 10 0) =
        [20, - 40, 40, 0, 0, 0, 0, 0, 0, 0]"
    unfolding XtX Xty by (simp add: gsSweep_def gsUpdate_def upt_10 numeral_eq_Suc)
  show "gsSweep (XtX_of ?X 10) (Xty_of ?X ?y 10) 10 [20, - 40, 40, 0, 0, 0, 0, 0, 0, 0] =
        [20, - 40, 40, 0, 0, 0, 0, 0, 0, 0]"
    unfolding XtX Xty by (simp add: gsSweep_def gsUpdate_def upt_10)
qed simp_all

lemma fitLinearModel3D_threePoints_other:
  "m \<noteq> e2e_mean \<Longrightarrow>
   fitLinearModel3D threePoints m =
     Inr \<lparr> intercept = 1, x1Coeff = 0, x2Coeff = 0, x3Coeff = 0 \<rparr>"
  by (simp add: fitLinearModel3D_def threePoints_def linearRow3D_def coeffOr0_def Let_def
        solve_linear_three_ones)

lemma fitPolynomialModel3D_threePoints_other:
  "m \<noteq> e2e_mean \<Longrightarrow>
   fitPolynomialModel3D threePoints m =
     Inr \<lparr> intercept = 1, x1 = 0, x2 = 0, x1_sq = 0, x2_sq = 0, x1x2 = 0,
           x3 = 0, x3_sq = 0, x1x3 = 0, x2x3 = 0 \<rparr>"
  by (simp add: fitPolynomialModel3D_def threePoints_def polyRow3D_def coeffOr0_def Let_def
        solve_polynomial_three_ones)

lemma fitLinearModel3D_quarterPoints:
  "fitLinearModel3D quarterPoints e2e_mean =
     Inr \<lparr> intercept = 20, x1Coeff = - 40, x2Coeff = 40, x3Coeff = 0 \<rparr>"
  by (simp add: fitLinearModel3D_def quarterPoints_def linearRow3D_def coeffOr0_def Let_def
        solve_linear_quarter)

lemma fitPolynomialModel3D_quarterPoints:
  "fitPolynomialModel3D quarterPoints e2e_mean =
     Inr \<lparr> intercept = 20, x1 = - 40, x2 = 40, x1_sq = 0, x2_sq = 0, x1x2 = 0,
           x3 = 0, x3_sq = 0, x1x3 = 0, x2x3 = 0 \<rparr>"
  by (simp add: fitPolynomialModel3D_def quarterPoints_def polyRow3D_def coeffOr0_def Let_def
        solve_polynomial_quarter)

lemma hasVariation_threePoints: "hasVariation threePoints"
  by (simp add: hasVariation_def threePoints_def Math_round_def)

lemma hasVariation_quarterPoints: "\<not> hasVariation quarterPoints"
  by (simp add: hasVariation_def quarterPoints_def Math_round_def)

text \<open>The 3-feature predictions in terms of the solver and the rows of features.\<close>

lemma linearPrediction_3D_value:
  assumes "bs \<noteq> []"
  shows "\<exists>coeffs.
           solvePolynomial (map linearRow3D bs) (map (\<lambda>b. orElse (stat b m) 0) bs) = Inr coeffs \<and>
           linearPrediction bs ti to (Some t) m =
             Inr (Fin (max 0 (coeffOr0 coeffs 0 + coeffOr0 coeffs 1 * ti +
                              coeffOr0 coeffs 2 * to + coeffOr0 coeffs 3 * t)))"
proof -
  from assms have "map linearRow3D bs \<noteq> []" by simp
  from solvePolynomial_nonempty [OF this]
  obtain coeffs where
    "solvePolynomial (map linearRow3D bs) (map (\<lambda>b. orElse (stat b m) 0) bs) = Inr coeffs"
    by blast
  then show ?thesis by (simp add: linearPrediction_def fitLinearModel3D_def)
qed

lemma polynomialPrediction_3D_value:
  assumes "bs \<noteq> []"
  shows "\<exists>coeffs.
           solvePolynomial (map polyRow3D bs) (map (\<lambda>b. orElse (stat b m) 0) bs) = Inr coeffs \<and>
           polynomialPrediction bs ti to (Some t) m =
             Inr (Fin (max 0
               (coeffOr0 coeffs 0 + coeffOr0 coeffs 1 * ti + coeffOr0 coeffs 2 * to +
                coeffOr0 coeffs 3 * t + coeffOr0 coeffs 4 * ti * ti +
                coeffOr0 coeffs 5 * to * to + coeffOr0 coeffs 6 * t * t +
                coeffOr0 coeffs 7 * ti * to + coeffOr0 coeffs 8 * ti * t +
                coeffOr0 coeffs 9 * to * t)))"
proof -
  from assms have "map polyRow3D bs \<noteq> []" by simp
  from solvePolynomial_nonempty [OF this]
  obtain coeffs where
    "solvePolynomial (map polyRow3D bs) (map (\<lambda>b. orElse (stat b m) 0) bs) = Inr coeffs"
    by blast
  then show ?thesis by (simp add: polynomialPrediction_def fitPolynomialModel3D_def)
qed

lemma length_threePoints: "length threePoints = 3"
  by (simp add: threePoints_def)

lemma threePoints_rows:
  "map linearRow3D threePoints = [[1, 0, 0, 1], [1, 0, 1, 2], [1, 1, 0, 1]]"
  "map polyRow3D threePoints =
     [[1, 0, 0, 1, 0, 0, 1, 0, 0, 0], [1, 0, 1, 2, 0, 1, 4, 0, 0, 2],
      [1, 1, 0, 1, 1, 0, 1, 0, 1, 0]]"
  "map (\<lambda>b. orElse (stat b e2e_mean) 0) threePoints = [20, 30, 10]"
  by (simp_all add: threePoints_def linearRow3D_def polyRow3D_def)

lemma threePoints_other:
  assumes "m \<noteq> e2e_mean"
  shows "linearPrediction threePoints ti to (Some t) m = Inr (Fin 1)"
    and "polynomialPrediction threePoints ti to (Some t) m = Inr (Fin 1)"
  using assms
  by (simp_all add: linearPrediction_def polynomialPrediction_def
        fitLinearModel3D_threePoints_other fitPolynomialModel3D_threePoints_other)

text \<open>The end-to-end mean of a result, by the name of the method that answered.\<close>

lemma e2e_mean_by_method:
  assumes "benchmarks \<noteq> []" and "req_traffic_level request = Some t"
  shows "\<exists>r. predictPerformance benchmarks request = Inr (Some r) \<and>
     (interpolation_method r = ''multivariate_linear'' \<or>
      interpolation_method r = ''auto_linear'' \<longrightarrow>
        (\<exists>coeffs.
           solvePolynomial (map linearRow3D benchmarks)
             (map (\<lambda>b. orElse (stat b e2e_mean) 0) benchmarks) = Inr coeffs \<and>
           predictions r e2e_mean =
             Some (Fin (max 0
               (coeffOr0 coeffs 0 + coeffOr0 coeffs 1 * req_input_tokens request +
                coeffOr0 coeffs 2 * req_output_tokens request + coeffOr0 coeffs 3 * t))))) \<and>
     (interpolation_method r = ''polynomial_regression'' \<or>
      interpolation_method r = ''auto_polynomial'' \<longrightarrow>
        (\<exists>coeffs.
           solvePolynomial (map polyRow3D benchmarks)
             (map (\<lambda>b. orElse (stat b e2e_mean) 0) benchmarks) = Inr coeffs \<and>
           predictions r e2e_mean =
             Some (Fin (max 0
               (coeffOr0 coeffs 0 + coeffOr0 coeffs 1 * req_input_tokens request +
                coeffOr0 coeffs 2 * req_output_tokens request + coeffOr0 coeffs 3 * t +
                coeffOr0 coeffs 4 * req_input_tokens request * req_input_tokens request +
                coeffOr0 coeffs 5 * req_output_tokens request * req_output_tokens request +
                coeffOr0 coeffs 6 * t * t +
                coeffOr0 coeffs 7 * req_input_tokens request * req_output_tokens request +
                coeffOr0 coeffs 8 * req_input_tokens request * t +
                coeffOr0 coeffs 9 * req_output_tokens request * t))))) \<and>
     (interpolation_method r = ''simple_average'' \<or>
      interpolation_method r = ''auto_simple_average'' \<longrightarrow>
        predictions r e2e_mean =
          Some (Fin ((\<Sum>b\<leftarrow>benchmarks. case stat b e2e_mean of None \<Rightarrow> 0 | Some v \<Rightarrow> v)
                     / real (length benchmarks))))"
proof -
  let ?ti = "req_input_tokens request" and ?to = "req_output_tokens request"
  from predictPerformance_result [OF assms(1), of request] obtain r where
    r: "predictPerformance benchmarks request = Inr (Some r)"
    and ans: "answeredBy benchmarks request r" by blast
  have lin: "\<exists>coeffs.
           solvePolynomial (map linearRow3D benchmarks)
             (map (\<lambda>b. orElse (stat b e2e_mean) 0) benchmarks) = Inr coeffs \<and>
           predictions r e2e_mean =
             Some (Fin (max 0
               (coeffOr0 coeffs 0 + coeffOr0 coeffs 1 * ?ti +
                coeffOr0 coeffs 2 * ?to + coeffOr0 coeffs 3 * t)))"
    if "interpolation_method r = ''multivariate_linear'' \<or>
        interpolation_method r = ''auto_linear''"
  proof -
    from that ans have "performMultivariateInterpolation benchmarks ?ti ?to (Some t)
                      = Inr (predictions r)"
      by (auto simp: answeredBy_def assms(2))
    with performMultivariateInterpolation_3D [OF assms(1), of ?ti ?to t]
    have "predictions r =
          (\<lambda>k. Some (projr (linearPrediction benchmarks ?ti ?to (Some t) k)))"
      by simp
    then have "predictions r e2e_mean =
               Some (projr (linearPrediction benchmarks ?ti ?to (Some t) e2e_mean))"
      by simp
    with linearPrediction_3D_value [OF assms(1), of e2e_mean ?ti ?to t]
    show ?thesis by auto
  qed
  have poly: "\<exists>coeffs.
           solvePolynomial (map polyRow3D benchmarks)
             (map (\<lambda>b. orElse (stat b e2e_mean) 0) benchmarks) = Inr coeffs \<and>
           predictions r e2e_mean =
             Some (Fin (max 0
               (coeffOr0 coeffs 0 + coeffOr0 coeffs 1 * ?ti +
                coeffOr0 coeffs 2 * ?to + coeffOr0 coeffs 3 * t +
                coeffOr0 coeffs 4 * ?ti * ?ti +
                coeffOr0 coeffs 5 * ?to * ?to +
                coeffOr0 coeffs 6 * t * t +
                coeffOr0 coeffs 7 * ?ti * ?to +
                coeffOr0 coeffs 8 * ?ti * t +
                coeffOr0 coeffs 9 * ?to * t)))"
    if "interpolation_method r = ''polynomial_regression'' \<or>
        interpolation_method r = ''auto_polynomial''"
  proof -
    from that ans have "performPolynomialInterpolation benchmarks ?ti ?to (Some t)
                      = Inr (predictions r)"
      by (auto simp: answeredBy_def assms(2))
    with performPolynomialInterpolation_3D [OF assms(1), of ?ti ?to t]
    have "predictions r =
          (\<lambda>k. Some (projr (polynomialPrediction benchmarks ?ti ?to (Some t) k)))"
      by simp
    then have "predictions r e2e_mean =
               Some (projr (polynomialPrediction benchmarks ?ti ?to (Some t) e2e_mean))"
      by simp
    with polynomialPrediction_3D_value [OF assms(1), of e2e_mean ?ti ?to t]
    show ?thesis by auto
  qed
  have avg: "predictions r e2e_mean =
          Some (Fin ((\<Sum>b\<leftarrow>benchmarks. case stat b e2e_mean of None \<Rightarrow> 0 | Some v \<Rightarrow> v)
                     / real (length benchmarks)))"
    if "interpolation_method r = ''simple_average'' \<or>
        interpolation_method r = ''auto_simple_average''"
  proof -
    from that ans have "predictions r = performSimpleAveraging benchmarks"
      by (auto simp: answeredBy_def)
    then show ?thesis
      by (simp add: performSimpleAveraging_key averageOf_nonempty [OF assms(1)])
  qed
  from r lin poly avg show ?thesis by blast
qed

lemma predictPerformance_names:
  assumes "bs \<noteq> []"
    and "predictPerformance bs request = Inr (Some r)"
  shows "if length bs = 1 \<or> \<not> hasVariation bs \<or> req_method request = Some Average
         then interpolation_method r = ''simple_average''
         else interpolation_method r = ''multivariate_linear'' \<or>
              interpolation_method r = ''auto_linear'' \<or>
              interpolation_method r = ''polynomial_regression'' \<or>
              interpolation_method r = ''auto_polynomial''"
  using predictPerformance_method [OF assms(1), of request] assms(2)
  by (auto split: if_splits option.splits PredictionMethod.splits)

text \<open>The two ends of the scale of \<open>calculateConfidence\<close>, and the label of a result.\<close>

lemma calculateConfidence_same:
  assumes "bs \<noteq> []"
    and "\<exists>b\<in>set bs. input_avg_len b = ti \<and> output_avg_len b = to"
  shows "calculateConfidence bs ti to = High"
proof -
  let ?rx = "Max (input_avg_len ` set bs) - Min (input_avg_len ` set bs)"
  let ?ry = "Max (output_avg_len ` set bs) - Min (output_avg_len ` set bs)"
  let ?D = "normDistance ?rx ?ry ti to ` set bs"
  have fin: "finite ?D" "?D \<noteq> {}" using assms(1) by simp_all
  from assms(2) obtain b where b: "b \<in> set bs"
    "input_avg_len b = ti" "output_avg_len b = to" by blast
  then have "0 \<in> ?D"
    using normDistance_same [of b ti to ?rx ?ry] by force
  then have "Min ?D \<le> 0" using fin by (simp add: Min_le)
  then have near: "Min ?D < 1 / 10" by simp
  from b have "Min (input_avg_len ` set bs) \<le> ti"
    "ti \<le> Max (input_avg_len ` set bs)"
    "Min (output_avg_len ` set bs) \<le> to"
    "to \<le> Max (output_avg_len ` set bs)"
    by (auto intro: Min_le Max_ge)
  with near show ?thesis
    by (simp add: calculateConfidence_nonempty [OF assms(1)] Let_def not_less)
qed

lemma calculateConfidence_far:
  assumes "bs \<noteq> []"
    and "\<forall>b\<in>set bs.
           3 / 10 \<le> normDistance
              (Max (input_avg_len ` set bs) - Min (input_avg_len ` set bs))
              (Max (output_avg_len ` set bs) - Min (output_avg_len ` set bs)) ti to b"
    and "ti < Min (input_avg_len ` set bs) \<or> ti > Max (input_avg_len ` set bs) \<or>
         to < Min (output_avg_len ` set bs) \<or> to > Max (output_avg_len ` set bs)"
  shows "calculateConfidence bs ti to = Low"
proof -
  let ?rx = "Max (input_avg_len ` set bs) - Min (input_avg_len ` set bs)"
  let ?ry = "Max (output_avg_len ` set bs) - Min (output_avg_len ` set bs)"
  let ?D = "normDistance ?rx ?ry ti to ` set bs"
  have fin: "finite ?D" "?D \<noteq> {}" using assms(1) by simp_all
  from assms(2) have "\<And>d. d \<in> ?D \<Longrightarrow> 3 / 10 \<le> d" by blast
  with fin have "3 / 10 \<le> Min ?D" by (intro Min.boundedI)
  then have "\<not> Min ?D < 1 / 10" "\<not> Min ?D < 3 / 10" by simp_all
  with assms(3) show ?thesis
    by (simp add: calculateConfidence_nonempty [OF assms(1)] Let_def)
qed

lemma predictPerformance_confidence:
  assumes "bs \<noteq> []"
  shows "\<exists>r. predictPerformance bs request = Inr (Some r) \<and>
           confidence r =
             (if length bs = 1 \<or> \<not> hasVariation bs \<or> req_method request = Some Average
              then Low
              else calculateConfidence bs (req_input_tokens request)
                     (req_output_tokens request))"
proof -
  from predictPerformance_result [OF assms, of request] obtain r where
    r: "predictPerformance bs request = Inr (Some r)"
    and ans: "answeredBy bs request r" by blast
  from predictPerformance_method [OF assms, of request] r
  have m: "if length bs = 1 \<or> \<not> hasVariation bs
            then interpolation_method r = ''simple_average''
            else if length bs < 3
            then (case req_method request of
                    None \<Rightarrow> interpolation_method r = ''auto_linear''
                  | Some Auto_detect \<Rightarrow> interpolation_method r = ''auto_linear''
                  | Some Polynomial \<Rightarrow> interpolation_method r = ''multivariate_linear''
                  | Some Linear \<Rightarrow> interpolation_method r = ''multivariate_linear''
                  | Some Average \<Rightarrow> interpolation_method r = ''simple_average'')
            else (case req_method request of
                    None \<Rightarrow> interpolation_method r = ''auto_linear'' \<or>
                            interpolation_method r = ''auto_polynomial''
                  | Some Auto_detect \<Rightarrow> interpolation_method r = ''auto_linear'' \<or>
                            interpolation_method r = ''auto_polynomial''
                  | Some Polynomial \<Rightarrow> interpolation_method r = ''polynomial_regression''
                  | Some Linear \<Rightarrow> interpolation_method r = ''multivariate_linear''
                  | Some Average \<Rightarrow> interpolation_method r = ''simple_average'')"
    by simp
  have "confidence r =
             (if length bs = 1 \<or> \<not> hasVariation bs \<or> req_method request = Some Average
              then Low
              else calculateConfidence bs (req_input_tokens request)
                     (req_output_tokens request))"
  proof (cases "length bs = 1 \<or> \<not> hasVariation bs \<or> req_method request = Some Average")
    case True
    with m have "interpolation_method r = ''simple_average''"
      by (auto split: if_splits)
    with ans True show ?thesis by (auto simp: answeredBy_def)
  next
    case False
    with m have "interpolation_method r \<noteq> ''simple_average''"
      "interpolation_method r \<noteq> ''auto_simple_average''"
      by (auto split: if_splits option.splits PredictionMethod.splits)
    with ans False show ?thesis by (auto simp: answeredBy_def)
  qed
  with r show ?thesis by blast
qed

text \<open>Each fitter on its own: what makes its prediction of one statistic non-negative.\<close>

lemma fitters_nonneg:
  assumes "benchmarks \<noteq> []"
  shows "((\<forall>b\<in>set benchmarks. \<forall>v. stat b m = Some v \<longrightarrow> 0 \<le> v) \<longrightarrow>
           (\<exists>v. performSimpleAveraging benchmarks m = Some (Fin v) \<and> 0 \<le> v))
       \<and> (targetTraffic \<noteq> None \<or> m \<noteq> e2e_mean \<or> 0 \<le> targetOutput \<longrightarrow>
           (\<exists>p v. performMultivariateInterpolation benchmarks targetInput targetOutput
                     targetTraffic = Inr p \<and> p m = Some (Fin v) \<and> 0 \<le> v))
       \<and> (targetTraffic \<noteq> None \<or> m \<noteq> e2e_mean \<or> 0 \<le> targetOutput \<longrightarrow>
           (\<exists>p v. performPolynomialInterpolation benchmarks targetInput targetOutput
                     targetTraffic = Inr p \<and> p m = Some (Fin v) \<and> 0 \<le> v))"
proof (intro conjI impI)
  assume "\<forall>b\<in>set benchmarks. \<forall>v. stat b m = Some v \<longrightarrow> 0 \<le> v"
  from averageOf_nonneg [OF assms this]
  show "\<exists>v. performSimpleAveraging benchmarks m = Some (Fin v) \<and> 0 \<le> v"
    by (simp add: performSimpleAveraging_key)
next
  assume m: "targetTraffic \<noteq> None \<or> m \<noteq> e2e_mean \<or> 0 \<le> targetOutput"
  have f: "\<And>k. \<exists>v. linearPrediction benchmarks targetInput targetOutput targetTraffic k
                      = Inr (Fin v) \<and> 0 \<le> v"
    using linearPrediction_clamped assms by blast
  have "performMultivariateInterpolation benchmarks targetInput targetOutput targetTraffic =
        Inr (if targetTraffic = None
             then calculateE2EMeanMechanistically
                    (\<lambda>k. if k \<noteq> e2e_mean
                          then Some (projr (linearPrediction benchmarks targetInput targetOutput
                                              targetTraffic k))
                          else None) (Fin targetOutput)
             else (\<lambda>k. Some (projr (linearPrediction benchmarks targetInput targetOutput
                                       targetTraffic k))))"
  proof (cases targetTraffic)
    case None
    show ?thesis unfolding None by (simp add: performMultivariateInterpolation_2D)
  next
    case (Some t)
    show ?thesis unfolding Some by (simp add: performMultivariateInterpolation_3D [OF assms])
  qed
  with interpolation_nonneg [OF f m]
  show "\<exists>p v. performMultivariateInterpolation benchmarks targetInput targetOutput
                 targetTraffic = Inr p \<and> p m = Some (Fin v) \<and> 0 \<le> v"
    by simp
next
  assume m: "targetTraffic \<noteq> None \<or> m \<noteq> e2e_mean \<or> 0 \<le> targetOutput"
  have f: "\<And>k. \<exists>v. polynomialPrediction benchmarks targetInput targetOutput targetTraffic k
                      = Inr (Fin v) \<and> 0 \<le> v"
    using polynomialPrediction_clamped assms by blast
  have "performPolynomialInterpolation benchmarks targetInput targetOutput targetTraffic =
        Inr (if targetTraffic = None
             then calculateE2EMeanMechanistically
                    (\<lambda>k. if k \<noteq> e2e_mean
                          then Some (projr (polynomialPrediction benchmarks targetInput
                                              targetOutput targetTraffic k))
                          else None) (Fin targetOutput)
             else (\<lambda>k. Some (projr (polynomialPrediction benchmarks targetInput targetOutput
                                       targetTraffic k))))"
  proof (cases targetTraffic)
    case None
    show ?thesis unfolding None by (simp add: performPolynomialInterpolation_2D [OF assms])
  next
    case (Some t)
    show ?thesis unfolding Some by (simp add: performPolynomialInterpolation_3D [OF assms])
  qed
  with interpolation_nonneg [OF f m]
  show "\<exists>p v. performPolynomialInterpolation benchmarks targetInput targetOutput
                 targetTraffic = Inr p \<and> p m = Some (Fin v) \<and> 0 \<le> v"
    by simp
qed


section \<open>The average fitter\<close>

text \<open>
  Claim C6. For a non-empty list of benchmarks, \<open>predictWithAverage\<close> predicts for each
  statistic the arithmetic mean of that statistic over all benchmarks, a missing value
  counting as 0; the predictions are the same for every request (so for every target
  input and output token count), and the confidence is \<open>low\<close>.
\<close>

theorem average_fitter_mean:
  assumes "benchmarks \<noteq> []"
  shows "predictions (predictWithAverage benchmarks request) m =
           Some (Fin ((\<Sum>b\<leftarrow>benchmarks. case stat b m of None \<Rightarrow> 0 | Some v \<Rightarrow> v)
                      / real (length benchmarks)))
         \<and> predictions (predictWithAverage benchmarks request) =
           predictions (predictWithAverage benchmarks request')
         \<and> confidence (predictWithAverage benchmarks request) = Low"
  using assms
  by (simp add: predictWithAverage_def performSimpleAveraging_key averageOf_nonempty)

theorem average_fitter_mean_witness:
  "predictions (predictWithAverage
      [\<lparr> input_avg_len = 100, output_avg_len = 50, traffic_level = None,
          stat = (\<lambda>m. if m = ttft_mean then Some 100 else None) \<rparr>,
       \<lparr> input_avg_len = 200, output_avg_len = 50, traffic_level = None,
          stat = (\<lambda>m. if m = ttft_mean then Some 200 else None) \<rparr>]
      \<lparr> req_model = ''m'', req_input_tokens = 10, req_output_tokens = 20,
        req_traffic_level = None, req_method = Some Average \<rparr>) ttft_mean = Some (Fin 150)"
  using average_fitter_mean
    [of "[\<lparr> input_avg_len = 100, output_avg_len = 50, traffic_level = None,
          stat = (\<lambda>m. if m = ttft_mean then Some 100 else None) \<rparr>,
       \<lparr> input_avg_len = 200, output_avg_len = 50, traffic_level = None,
          stat = (\<lambda>m. if m = ttft_mean then Some 200 else None) \<rparr>]"
       "\<lparr> req_model = ''m'', req_input_tokens = 10, req_output_tokens = 20,
        req_traffic_level = None, req_method = Some Average \<rparr>" ttft_mean]
  by simp

section \<open>The fallback of the mechanistic step\<close>

text \<open>
  Claim C1. When \<open>user_tps_mean\<close> is absent, not finite or not positive, \<open>safeDivide\<close>
  returns its fallback \<open>outputTokens * 10\<close>, and the caller multiplies what
  \<open>safeDivide\<close> returns by 1000. For a non-negative \<open>ttft_mean\<close> and a positive
  target output token count the derived \<open>e2e_mean\<close> is therefore
  \<open>ttft_mean + outputTokens * 10000\<close>, and not \<open>ttft_mean + outputTokens * 10\<close>:
  the rate of the first fallback is 0.1 tokens per second, where the second fallback of
  the same method, commented "Assume 100 tok/s", adds \<open>outputTokens * 10\<close> milliseconds.
\<close>

theorem fallback_rate_not_ten_ms:
  assumes "preds ttft_mean = Some (Fin ttft)"
    and "preds user_tps_mean = None \<or> preds user_tps_mean = Some NaN \<or>
         preds user_tps_mean = Some PInf \<or> preds user_tps_mean = Some NInf \<or>
         (\<exists>t. preds user_tps_mean = Some (Fin t) \<and> t \<le> 0)"
    and "0 \<le> ttft" and "0 < out"
  shows "calculateE2EMeanMechanistically preds (Fin out) e2e_mean =
           Some (Fin (ttft + out * 10 * 1000))
         \<and> calculateE2EMeanMechanistically preds (Fin out) e2e_mean \<noteq>
           Some (Fin (ttft + out * 10))"
proof -
  from assms(3,4) have "0 \<le> ttft + out * 10 * 1000" by simp
  from mechanistic_fallback [OF assms(1,2) this] assms(4) show ?thesis by simp
qed

text \<open>
  At \<open>ttft_mean = 100\<close>, \<open>user_tps_mean = 0\<close> and 200 output tokens the code gives
  2000100 ms, where the rate of 0.1 tokens per ms would give 2100 ms. The linear fitter
  reaches this on two benchmarks without \<open>user_tps_mean\<close>.
\<close>

theorem fallback_rate_not_ten_ms_witness:
  "calculateE2EMeanMechanistically [ttft_mean \<mapsto> Fin 100, user_tps_mean \<mapsto> Fin 0] (Fin 200) e2e_mean
     = Some (Fin 2000100)
   \<and> map_sum id (\<lambda>p. (p ttft_mean, p user_tps_mean, p e2e_mean))
       (performMultivariateInterpolation
          [\<lparr> input_avg_len = 100, output_avg_len = 50, traffic_level = None,
              stat = (\<lambda>m. if m = ttft_mean then Some 100 else None) \<rparr>,
           \<lparr> input_avg_len = 200, output_avg_len = 100, traffic_level = None,
              stat = (\<lambda>m. if m = ttft_mean then Some 100 else None) \<rparr>]
          150 200 None)
     = Inr (Some (Fin 100), Some (Fin 0), Some (Fin 2000100))"
proof -
  let ?P = "\<lambda>k. if k \<noteq> e2e_mean then Some (Fin (if k = ttft_mean then 100 else 0)) else None"
  have 1: "calculateE2EMeanMechanistically
             [ttft_mean \<mapsto> Fin 100, user_tps_mean \<mapsto> Fin 0] (Fin 200) e2e_mean
           = Some (Fin 2000100)"
    using fallback_rate_not_ten_ms
      [of "[ttft_mean \<mapsto> Fin 100, user_tps_mean \<mapsto> Fin 0]" 100 200]
    by simp
  have 2: "calculateE2EMeanMechanistically ?P (Fin 200) e2e_mean = Some (Fin 2000100)"
    using fallback_rate_not_ten_ms [of ?P 100 200] by simp
  have "performMultivariateInterpolation
          [\<lparr> input_avg_len = 100, output_avg_len = 50, traffic_level = None,
              stat = (\<lambda>m. if m = ttft_mean then Some 100 else None) \<rparr>,
           \<lparr> input_avg_len = 200, output_avg_len = 100, traffic_level = None,
              stat = (\<lambda>m. if m = ttft_mean then Some 100 else None) \<rparr>]
          150 200 None = Inr (calculateE2EMeanMechanistically ?P (Fin 200))"
    unfolding performMultivariateInterpolation_2D linearPrediction_no_tps sum.sel ..
  with 1 2 show ?thesis
    by (simp add: mechanistic_other_keys)
qed

section \<open>The mechanistic formula\<close>



section \<open>Non-negative predictions\<close>

text \<open>
  Claim C2. For non-empty benchmarks that hold no negative statistic and a request with a
  positive output token count (the observations and requests of the data model), each of
  the 25 predicted statistics \<open>m\<close> is a finite number that is at least 0: in the
  averages of \<open>performSimpleAveraging\<close>, in what the linear and the polynomial
  interpolation return at the target with any traffic level (3 features) or none
  (2 features), and in the result of \<open>predictPerformance\<close>, whichever fitter answers.
\<close>

theorem predicted_statistics_nonneg:
  assumes "benchmarks \<noteq> []"
    and "\<forall>b\<in>set benchmarks. \<forall>m v. stat b m = Some v \<longrightarrow> 0 \<le> v"
    and "0 < req_output_tokens request"
  shows "(\<exists>v. performSimpleAveraging benchmarks m = Some (Fin v) \<and> 0 \<le> v)
       \<and> (\<exists>p v. performMultivariateInterpolation benchmarks (req_input_tokens request)
                   (req_output_tokens request) targetTraffic = Inr p \<and>
                 p m = Some (Fin v) \<and> 0 \<le> v)
       \<and> (\<exists>p v. performPolynomialInterpolation benchmarks (req_input_tokens request)
                   (req_output_tokens request) targetTraffic = Inr p \<and>
                 p m = Some (Fin v) \<and> 0 \<le> v)
       \<and> (\<exists>r v. predictPerformance benchmarks request = Inr (Some r) \<and>
                 predictions r m = Some (Fin v) \<and> 0 \<le> v)"
proof -
  let ?ti = "req_input_tokens request" and ?to = "req_output_tokens request"
  from assms(2) have stats: "\<forall>b\<in>set benchmarks. \<forall>v. stat b m = Some v \<longrightarrow> 0 \<le> v"
    by blast
  from assms(3) have out: "tt \<noteq> None \<or> m \<noteq> e2e_mean \<or> 0 \<le> ?to"
    for tt :: "real option"
    by simp
  note fit = fitters_nonneg [OF assms(1), of m]
  from fit stats
  have avg: "\<exists>v. performSimpleAveraging benchmarks m = Some (Fin v) \<and> 0 \<le> v"
    by blast
  from fit [of targetTraffic ?to ?ti] out
  have lin: "\<exists>p v. performMultivariateInterpolation benchmarks ?ti ?to targetTraffic = Inr p \<and>
                   p m = Some (Fin v) \<and> 0 \<le> v"
    by blast
  from fit [of targetTraffic ?to ?ti] out
  have poly: "\<exists>p v. performPolynomialInterpolation benchmarks ?ti ?to targetTraffic = Inr p \<and>
                   p m = Some (Fin v) \<and> 0 \<le> v"
    by blast
  from predictPerformance_result [OF assms(1), of request] obtain r where
    r: "predictPerformance benchmarks request = Inr (Some r)"
    and ans: "answeredBy benchmarks request r" by blast
  from fit [of "req_traffic_level request" ?to ?ti] out
  have rl: "\<exists>p v. performMultivariateInterpolation benchmarks ?ti ?to
                   (req_traffic_level request) = Inr p \<and>
                   p m = Some (Fin v) \<and> 0 \<le> v"
    by blast
  from fit [of "req_traffic_level request" ?to ?ti] out
  have rp: "\<exists>p v. performPolynomialInterpolation benchmarks ?ti ?to
                   (req_traffic_level request) = Inr p \<and>
                   p m = Some (Fin v) \<and> 0 \<le> v"
    by blast
  from ans avg rl rp have "\<exists>v. predictions r m = Some (Fin v) \<and> 0 \<le> v"
    unfolding answeredBy_def by auto
  with r avg lin poly show ?thesis by blast
qed

theorem predicted_statistics_nonneg_witness:
  "(\<exists>v. performSimpleAveraging
          [\<lparr> input_avg_len = 100, output_avg_len = 50, traffic_level = None,
              stat = (\<lambda>m. Some 100) \<rparr>,
           \<lparr> input_avg_len = 200, output_avg_len = 100, traffic_level = None,
              stat = (\<lambda>m. Some 200) \<rparr>] e2e_mean = Some (Fin v) \<and> 0 \<le> v)
   \<and> (\<exists>p v. performMultivariateInterpolation
          [\<lparr> input_avg_len = 100, output_avg_len = 50, traffic_level = None,
              stat = (\<lambda>m. Some 100) \<rparr>,
           \<lparr> input_avg_len = 200, output_avg_len = 100, traffic_level = None,
              stat = (\<lambda>m. Some 200) \<rparr>] 150 200 None = Inr p \<and>
          p e2e_mean = Some (Fin v) \<and> 0 \<le> v)
   \<and> (\<exists>p v. performPolynomialInterpolation
          [\<lparr> input_avg_len = 100, output_avg_len = 50, traffic_level = None,
              stat = (\<lambda>m. Some 100) \<rparr>,
           \<lparr> input_avg_len = 200, output_avg_len = 100, traffic_level = None,
              stat = (\<lambda>m. Some 200) \<rparr>] 150 200 None = Inr p \<and>
          p e2e_mean = Some (Fin v) \<and> 0 \<le> v)
   \<and> (\<exists>r v. predictPerformance
          [\<lparr> input_avg_len = 100, output_avg_len = 50, traffic_level = None,
              stat = (\<lambda>m. Some 100) \<rparr>,
           \<lparr> input_avg_len = 200, output_avg_len = 100, traffic_level = None,
              stat = (\<lambda>m. Some 200) \<rparr>]
          \<lparr> req_model = ''m'', req_input_tokens = 150, req_output_tokens = 200,
            req_traffic_level = None, req_method = None \<rparr> = Inr (Some r) \<and>
          predictions r e2e_mean = Some (Fin v) \<and> 0 \<le> v)"
  using predicted_statistics_nonneg
    [of "[\<lparr> input_avg_len = 100, output_avg_len = 50, traffic_level = None,
              stat = (\<lambda>m. Some 100) \<rparr>,
           \<lparr> input_avg_len = 200, output_avg_len = 100, traffic_level = None,
              stat = (\<lambda>m. Some 200) \<rparr>]"
        "\<lparr> req_model = ''m'', req_input_tokens = 150, req_output_tokens = 200,
            req_traffic_level = None, req_method = None \<rparr>" e2e_mean None]
  by simp

section \<open>End-to-end mean with a traffic level\<close>

text \<open>
  Claim C8, amended. For non-empty benchmarks and a request with a traffic level \<open>t\<close>,
  \<open>predictPerformance\<close> returns a result. When the average fitter answers (a single
  benchmark, no variation of the rounded token counts, or the method \<open>average\<close>),
  its \<open>e2e_mean\<close> is the arithmetic mean of \<open>e2e_mean\<close> over the benchmarks,
  whatever the traffic level. Otherwise the method is linear or polynomial, and
  \<open>e2e_mean\<close> is the 3-feature fit of that method evaluated at the target and
  clamped at 0: the coefficients are the ones that \<open>solvePolynomial\<close> returns on
  the rows \<open>[1, x1, x2, x3]\<close> of the benchmarks (for polynomial, the rows of 10
  features) and their column of \<open>e2e_mean\<close>. The mechanistic formula enters neither
  value.
\<close>

theorem traffic_e2e_mean_by_fitter:
  assumes "benchmarks \<noteq> []" and "req_traffic_level request = Some t"
  shows "\<exists>r. predictPerformance benchmarks request = Inr (Some r) \<and>
     (if length benchmarks = 1 \<or> \<not> hasVariation benchmarks \<or>
         req_method request = Some Average
      then interpolation_method r = ''simple_average'' \<and>
           predictions r e2e_mean =
             Some (Fin ((\<Sum>b\<leftarrow>benchmarks. case stat b e2e_mean of None \<Rightarrow> 0 | Some v \<Rightarrow> v)
                        / real (length benchmarks)))
      else ((interpolation_method r = ''multivariate_linear'' \<or>
             interpolation_method r = ''auto_linear'') \<and>
            (\<exists>coeffs.
               solvePolynomial (map linearRow3D benchmarks)
                 (map (\<lambda>b. orElse (stat b e2e_mean) 0) benchmarks) = Inr coeffs \<and>
               predictions r e2e_mean =
                 Some (Fin (max 0
                   (coeffOr0 coeffs 0 + coeffOr0 coeffs 1 * req_input_tokens request +
                    coeffOr0 coeffs 2 * req_output_tokens request +
                    coeffOr0 coeffs 3 * t))))) \<or>
           ((interpolation_method r = ''polynomial_regression'' \<or>
             interpolation_method r = ''auto_polynomial'') \<and>
            (\<exists>coeffs.
               solvePolynomial (map polyRow3D benchmarks)
                 (map (\<lambda>b. orElse (stat b e2e_mean) 0) benchmarks) = Inr coeffs \<and>
               predictions r e2e_mean =
                 Some (Fin (max 0
                   (coeffOr0 coeffs 0 + coeffOr0 coeffs 1 * req_input_tokens request +
                    coeffOr0 coeffs 2 * req_output_tokens request + coeffOr0 coeffs 3 * t +
                    coeffOr0 coeffs 4 * req_input_tokens request * req_input_tokens request +
                    coeffOr0 coeffs 5 * req_output_tokens request * req_output_tokens request +
                    coeffOr0 coeffs 6 * t * t +
                    coeffOr0 coeffs 7 * req_input_tokens request * req_output_tokens request +
                    coeffOr0 coeffs 8 * req_input_tokens request * t +
                    coeffOr0 coeffs 9 * req_output_tokens request * t))))))"
proof -
  from e2e_mean_by_method [OF assms] obtain r where
    r: "predictPerformance benchmarks request = Inr (Some r)"
    and lin: "interpolation_method r = ''multivariate_linear'' \<or>
      interpolation_method r = ''auto_linear'' \<longrightarrow>
        (\<exists>coeffs.
           solvePolynomial (map linearRow3D benchmarks)
             (map (\<lambda>b. orElse (stat b e2e_mean) 0) benchmarks) = Inr coeffs \<and>
           predictions r e2e_mean =
             Some (Fin (max 0
               (coeffOr0 coeffs 0 + coeffOr0 coeffs 1 * req_input_tokens request +
                coeffOr0 coeffs 2 * req_output_tokens request + coeffOr0 coeffs 3 * t))))"
    and poly: "interpolation_method r = ''polynomial_regression'' \<or>
      interpolation_method r = ''auto_polynomial'' \<longrightarrow>
        (\<exists>coeffs.
           solvePolynomial (map polyRow3D benchmarks)
             (map (\<lambda>b. orElse (stat b e2e_mean) 0) benchmarks) = Inr coeffs \<and>
           predictions r e2e_mean =
             Some (Fin (max 0
               (coeffOr0 coeffs 0 + coeffOr0 coeffs 1 * req_input_tokens request +
                coeffOr0 coeffs 2 * req_output_tokens request + coeffOr0 coeffs 3 * t +
                coeffOr0 coeffs 4 * req_input_tokens request * req_input_tokens request +
                coeffOr0 coeffs 5 * req_output_tokens request * req_output_tokens request +
                coeffOr0 coeffs 6 * t * t +
                coeffOr0 coeffs 7 * req_input_tokens request * req_output_tokens request +
                coeffOr0 coeffs 8 * req_input_tokens request * t +
                coeffOr0 coeffs 9 * req_output_tokens request * t))))"
    and avg: "interpolation_method r = ''simple_average'' \<or>
      interpolation_method r = ''auto_simple_average'' \<longrightarrow>
        predictions r e2e_mean =
          Some (Fin ((\<Sum>b\<leftarrow>benchmarks. case stat b e2e_mean of None \<Rightarrow> 0 | Some v \<Rightarrow> v)
                     / real (length benchmarks)))"
    by blast
  note names = predictPerformance_names [OF assms(1) r]
  show ?thesis
  proof (cases "length benchmarks = 1 \<or> \<not> hasVariation benchmarks \<or>
                req_method request = Some Average")
    case True
    with names have "interpolation_method r = ''simple_average''" by simp
    with avg r True show ?thesis by (intro exI [of _ r]) simp
  next
    case False
    with names have "interpolation_method r = ''multivariate_linear'' \<or>
              interpolation_method r = ''auto_linear'' \<or>
              interpolation_method r = ''polynomial_regression'' \<or>
              interpolation_method r = ''auto_polynomial''" by simp
    with lin poly have "((interpolation_method r = ''multivariate_linear'' \<or>
             interpolation_method r = ''auto_linear'') \<and>
            (\<exists>coeffs.
               solvePolynomial (map linearRow3D benchmarks)
                 (map (\<lambda>b. orElse (stat b e2e_mean) 0) benchmarks) = Inr coeffs \<and>
               predictions r e2e_mean =
                 Some (Fin (max 0
                   (coeffOr0 coeffs 0 + coeffOr0 coeffs 1 * req_input_tokens request +
                    coeffOr0 coeffs 2 * req_output_tokens request +
                    coeffOr0 coeffs 3 * t))))) \<or>
           ((interpolation_method r = ''polynomial_regression'' \<or>
             interpolation_method r = ''auto_polynomial'') \<and>
            (\<exists>coeffs.
               solvePolynomial (map polyRow3D benchmarks)
                 (map (\<lambda>b. orElse (stat b e2e_mean) 0) benchmarks) = Inr coeffs \<and>
               predictions r e2e_mean =
                 Some (Fin (max 0
                   (coeffOr0 coeffs 0 + coeffOr0 coeffs 1 * req_input_tokens request +
                    coeffOr0 coeffs 2 * req_output_tokens request + coeffOr0 coeffs 3 * t +
                    coeffOr0 coeffs 4 * req_input_tokens request * req_input_tokens request +
                    coeffOr0 coeffs 5 * req_output_tokens request * req_output_tokens request +
                    coeffOr0 coeffs 6 * t * t +
                    coeffOr0 coeffs 7 * req_input_tokens request * req_output_tokens request +
                    coeffOr0 coeffs 8 * req_input_tokens request * t +
                    coeffOr0 coeffs 9 * req_output_tokens request * t)))))"
      by blast
    with r False show ?thesis by (intro exI [of _ r]) simp
  qed
qed

text \<open>
  On \<open>threePoints\<close> with the target (50, 200) and traffic level 2, the linear and the
  polynomial method both return \<open>e2e_mean = 20 - 10 * 50 + 10 * 200 = 1520\<close>, the
  regressed value, where the mechanistic formula on the returned \<open>ttft_mean = 1\<close> and
  \<open>user_tps_mean = 1\<close> would give 200001; the method \<open>average\<close> returns the
  mean 20.
\<close>

theorem traffic_e2e_mean_by_fitter_witness:
  "(\<exists>r. predictPerformance threePoints
           \<lparr> req_model = ''m'', req_input_tokens = 50, req_output_tokens = 200,
             req_traffic_level = Some 2, req_method = Some Linear \<rparr> = Inr (Some r) \<and>
         interpolation_method r = ''multivariate_linear'' \<and>
         predictions r e2e_mean = Some (Fin 1520) \<and>
         calculateE2EMeanMechanistically (predictions r) (Fin 200) e2e_mean
           = Some (Fin 200001))
   \<and> (\<exists>r. predictPerformance threePoints
           \<lparr> req_model = ''m'', req_input_tokens = 50, req_output_tokens = 200,
             req_traffic_level = Some 2, req_method = Some Polynomial \<rparr> = Inr (Some r) \<and>
         interpolation_method r = ''polynomial_regression'' \<and>
         predictions r e2e_mean = Some (Fin 1520) \<and>
         calculateE2EMeanMechanistically (predictions r) (Fin 200) e2e_mean
           = Some (Fin 200001))
   \<and> (\<exists>r. predictPerformance threePoints
           \<lparr> req_model = ''m'', req_input_tokens = 50, req_output_tokens = 200,
             req_traffic_level = Some 2, req_method = Some Average \<rparr> = Inr (Some r) \<and>
         interpolation_method r = ''simple_average'' \<and>
         predictions r e2e_mean = Some (Fin 20))"
proof -
  let ?lin = "\<lparr> req_model = ''m'', req_input_tokens = 50, req_output_tokens = 200,
               req_traffic_level = Some 2, req_method = Some Linear \<rparr>"
  let ?poly = "\<lparr> req_model = ''m'', req_input_tokens = 50, req_output_tokens = 200,
               req_traffic_level = Some 2, req_method = Some Polynomial \<rparr>"
  let ?avg = "\<lparr> req_model = ''m'', req_input_tokens = 50, req_output_tokens = 200,
               req_traffic_level = Some 2, req_method = Some Average \<rparr>"
  have ne: "threePoints \<noteq> []" by (simp add: threePoints_def)
  have sum: "(\<Sum>b\<leftarrow>threePoints. case stat b e2e_mean of None \<Rightarrow> 0 | Some v \<Rightarrow> v) = 60"
    by (simp add: threePoints_def)
  have mech: "calculateE2EMeanMechanistically p (Fin 200) e2e_mean = Some (Fin 200001)"
    if "p ttft_mean = Some (Fin 1)" "p user_tps_mean = Some (Fin 1)" for p
    using that by (simp add: calculateE2EMeanMechanistically_def safeDivide_def)
  have "\<exists>r. predictPerformance threePoints ?lin = Inr (Some r) \<and>
         interpolation_method r = ''multivariate_linear'' \<and>
         predictions r e2e_mean = Some (Fin 1520) \<and>
         calculateE2EMeanMechanistically (predictions r) (Fin 200) e2e_mean
           = Some (Fin 200001)"
  proof -
    from traffic_e2e_mean_by_fitter [OF ne, of ?lin 2] obtain r where
      r: "predictPerformance threePoints ?lin = Inr (Some r)"
      and v: "(interpolation_method r = ''multivariate_linear'' \<or>
             interpolation_method r = ''auto_linear'') \<and>
            predictions r e2e_mean = Some (Fin 1520) \<or>
            (interpolation_method r = ''polynomial_regression'' \<or>
             interpolation_method r = ''auto_polynomial'') \<and>
            predictions r e2e_mean = Some (Fin 1520)"
      by (auto simp: length_threePoints hasVariation_threePoints threePoints_rows
            solve_linear_three solve_polynomial_three coeffOr0_def)
    from predictPerformance_method [OF ne, of ?lin] r
    have im: "interpolation_method r = ''multivariate_linear''"
      by (simp add: length_threePoints hasVariation_threePoints)
    from predictPerformance_result [OF ne, of ?lin] r im
    have "performMultivariateInterpolation threePoints 50 200 (Some 2) = Inr (predictions r)"
      by (auto simp: answeredBy_def)
    with performMultivariateInterpolation_3D [OF ne, of 50 200 2]
    have "predictions r =
          (\<lambda>k. Some (projr (linearPrediction threePoints 50 200 (Some 2) k)))"
      by simp
    then have "predictions r ttft_mean = Some (Fin 1)" "predictions r user_tps_mean = Some (Fin 1)"
      by (simp_all add: threePoints_other)
    from mech [OF this] r im v show ?thesis by auto
  qed
  moreover
  have "\<exists>r. predictPerformance threePoints ?poly = Inr (Some r) \<and>
         interpolation_method r = ''polynomial_regression'' \<and>
         predictions r e2e_mean = Some (Fin 1520) \<and>
         calculateE2EMeanMechanistically (predictions r) (Fin 200) e2e_mean
           = Some (Fin 200001)"
  proof -
    from traffic_e2e_mean_by_fitter [OF ne, of ?poly 2] obtain r where
      r: "predictPerformance threePoints ?poly = Inr (Some r)"
      and v: "(interpolation_method r = ''multivariate_linear'' \<or>
             interpolation_method r = ''auto_linear'') \<and>
            predictions r e2e_mean = Some (Fin 1520) \<or>
            (interpolation_method r = ''polynomial_regression'' \<or>
             interpolation_method r = ''auto_polynomial'') \<and>
            predictions r e2e_mean = Some (Fin 1520)"
      by (auto simp: length_threePoints hasVariation_threePoints threePoints_rows
            solve_linear_three solve_polynomial_three coeffOr0_def)
    from predictPerformance_method [OF ne, of ?poly] r
    have im: "interpolation_method r = ''polynomial_regression''"
      by (simp add: length_threePoints hasVariation_threePoints)
    from predictPerformance_result [OF ne, of ?poly] r im
    have "performPolynomialInterpolation threePoints 50 200 (Some 2) = Inr (predictions r)"
      by (auto simp: answeredBy_def)
    with performPolynomialInterpolation_3D [OF ne, of 50 200 2]
    have "predictions r =
          (\<lambda>k. Some (projr (polynomialPrediction threePoints 50 200 (Some 2) k)))"
      by simp
    then have "predictions r ttft_mean = Some (Fin 1)" "predictions r user_tps_mean = Some (Fin 1)"
      by (simp_all add: threePoints_other)
    from mech [OF this] r im v show ?thesis by auto
  qed
  moreover
  have "\<exists>r. predictPerformance threePoints ?avg = Inr (Some r) \<and>
         interpolation_method r = ''simple_average'' \<and>
         predictions r e2e_mean = Some (Fin 20)"
    using traffic_e2e_mean_by_fitter [OF ne, of ?avg 2]
    by (simp add: sum length_threePoints)
  ultimately show ?thesis by blast
qed

text \<open>
  The claim as stated, for every non-empty set of benchmarks, fails: the input lengths
  and the output lengths of \<open>quarterPoints\<close> round to 0, so the request is answered
  by the average, \<open>e2e_mean = (30 + 10) / 2 = 20\<close>, although a traffic level is
  supplied; the 3-feature linear and polynomial fits of the same benchmarks, evaluated
  at the same target and clamped, are \<open>20 - 40 * 50 + 40 * 200 = 6020\<close>.
\<close>

theorem average_despite_traffic_counterexample:
  "map_sum id (map_option (\<lambda>r. (interpolation_method r, predictions r e2e_mean)))
     (predictPerformance quarterPoints
        \<lparr> req_model = ''m'', req_input_tokens = 50, req_output_tokens = 200,
          req_traffic_level = Some 2, req_method = None \<rparr>)
   = Inr (Some (''simple_average'', Some (Fin 20)))
   \<and> map_sum id (\<lambda>p. p e2e_mean)
       (performMultivariateInterpolation quarterPoints 50 200 (Some 2))
     = Inr (Some (Fin 6020))
   \<and> map_sum id (\<lambda>p. p e2e_mean)
       (performPolynomialInterpolation quarterPoints 50 200 (Some 2))
     = Inr (Some (Fin 6020))"
proof (intro conjI)
  have ne: "quarterPoints \<noteq> []" by (simp add: quarterPoints_def)
  have "performSimpleAveraging quarterPoints e2e_mean = Some (Fin 20)"
    by (simp add: performSimpleAveraging_key averageOf_def quarterPoints_def)
  then show "map_sum id (map_option (\<lambda>r. (interpolation_method r, predictions r e2e_mean)))
     (predictPerformance quarterPoints
        \<lparr> req_model = ''m'', req_input_tokens = 50, req_output_tokens = 200,
          req_traffic_level = Some 2, req_method = None \<rparr>)
   = Inr (Some (''simple_average'', Some (Fin 20)))"
    using hasVariation_quarterPoints ne
    by (simp add: predictPerformance_def predictWithAverage_def)
  show "map_sum id (\<lambda>p. p e2e_mean)
       (performMultivariateInterpolation quarterPoints 50 200 (Some 2))
     = Inr (Some (Fin 6020))"
    by (simp add: performMultivariateInterpolation_3D [OF ne] linearPrediction_def
          fitLinearModel3D_quarterPoints)
  show "map_sum id (\<lambda>p. p e2e_mean)
       (performPolynomialInterpolation quarterPoints 50 200 (Some 2))
     = Inr (Some (Fin 6020))"
    by (simp add: performPolynomialInterpolation_3D [OF ne] polynomialPrediction_def
          fitPolynomialModel3D_quarterPoints)
qed

section \<open>The resolved method\<close>

text \<open>
  Claim C3. For non-empty benchmarks and every request (whatever method it asks for, or
  none), \<open>predictPerformance\<close> returns a result; with fewer than 3 benchmarks its
  method is neither \<open>polynomial_regression\<close> nor \<open>auto_polynomial\<close>; and with
  fewer than 2 benchmarks, or when the rounded input lengths and the rounded output
  lengths each take fewer than 2 values, its method is \<open>simple_average\<close> or
  \<open>auto_simple_average\<close>. The same holds of \<open>predictAutoDetect\<close> called on its own.
\<close>

theorem resolved_method_respects_data:
  assumes "benchmarks \<noteq> []"
  shows "(\<exists>r. predictPerformance benchmarks request = Inr (Some r) \<and>
            (length benchmarks < 3 \<longrightarrow>
               interpolation_method r \<noteq> ''polynomial_regression'' \<and>
               interpolation_method r \<noteq> ''auto_polynomial'') \<and>
            (length benchmarks < 2 \<or>
             (card ((\<lambda>b. Math_round (input_avg_len b)) ` set benchmarks) < 2 \<and>
              card ((\<lambda>b. Math_round (output_avg_len b)) ` set benchmarks) < 2) \<longrightarrow>
               interpolation_method r = ''simple_average'' \<or>
               interpolation_method r = ''auto_simple_average''))
       \<and> (\<exists>r. predictAutoDetect benchmarks request = Inr r \<and>
            (length benchmarks < 3 \<longrightarrow>
               interpolation_method r \<noteq> ''polynomial_regression'' \<and>
               interpolation_method r \<noteq> ''auto_polynomial'') \<and>
            (length benchmarks < 2 \<or>
             (card ((\<lambda>b. Math_round (input_avg_len b)) ` set benchmarks) < 2 \<and>
              card ((\<lambda>b. Math_round (output_avg_len b)) ` set benchmarks) < 2) \<longrightarrow>
               interpolation_method r = ''simple_average'' \<or>
               interpolation_method r = ''auto_simple_average''))"
proof -
  from assms have len: "length benchmarks < 2 \<longleftrightarrow> length benchmarks = 1"
    by (cases benchmarks) auto
  have var: "card ((\<lambda>b. Math_round (input_avg_len b)) ` set benchmarks) < 2 \<and>
             card ((\<lambda>b. Math_round (output_avg_len b)) ` set benchmarks) < 2
             \<longleftrightarrow> \<not> hasVariation benchmarks"
    by (auto simp: hasVariation_card)
  from predictPerformance_method [OF assms] obtain r where
    r: "predictPerformance benchmarks request = Inr (Some r)"
       "if length benchmarks = 1 \<or> \<not> hasVariation benchmarks
            then interpolation_method r = ''simple_average''
            else if length benchmarks < 3
            then (case req_method request of
                    None \<Rightarrow> interpolation_method r = ''auto_linear''
                  | Some Auto_detect \<Rightarrow> interpolation_method r = ''auto_linear''
                  | Some Polynomial \<Rightarrow> interpolation_method r = ''multivariate_linear''
                  | Some Linear \<Rightarrow> interpolation_method r = ''multivariate_linear''
                  | Some Average \<Rightarrow> interpolation_method r = ''simple_average'')
            else (case req_method request of
                    None \<Rightarrow> interpolation_method r = ''auto_linear'' \<or>
                            interpolation_method r = ''auto_polynomial''
                  | Some Auto_detect \<Rightarrow> interpolation_method r = ''auto_linear'' \<or>
                            interpolation_method r = ''auto_polynomial''
                  | Some Polynomial \<Rightarrow> interpolation_method r = ''polynomial_regression''
                  | Some Linear \<Rightarrow> interpolation_method r = ''multivariate_linear''
                  | Some Average \<Rightarrow> interpolation_method r = ''simple_average'')"
    by blast
  from r(2) have
    "(length benchmarks < 3 \<longrightarrow>
        interpolation_method r \<noteq> ''polynomial_regression'' \<and>
        interpolation_method r \<noteq> ''auto_polynomial'') \<and>
     (length benchmarks = 1 \<or> \<not> hasVariation benchmarks \<longrightarrow>
        interpolation_method r = ''simple_average'' \<or>
        interpolation_method r = ''auto_simple_average'')"
    by (auto split: if_splits option.splits PredictionMethod.splits)
  with r(1) have first: "\<exists>r. predictPerformance benchmarks request = Inr (Some r) \<and>
            (length benchmarks < 3 \<longrightarrow>
               interpolation_method r \<noteq> ''polynomial_regression'' \<and>
               interpolation_method r \<noteq> ''auto_polynomial'') \<and>
            (length benchmarks < 2 \<or>
             (card ((\<lambda>b. Math_round (input_avg_len b)) ` set benchmarks) < 2 \<and>
              card ((\<lambda>b. Math_round (output_avg_len b)) ` set benchmarks) < 2) \<longrightarrow>
               interpolation_method r = ''simple_average'' \<or>
               interpolation_method r = ''auto_simple_average'')"
    unfolding len var by blast
  from predictAutoDetect_method [OF assms] obtain ra where
    ra: "predictAutoDetect benchmarks request = Inr ra"
        "if length benchmarks = 1 \<or> \<not> hasVariation benchmarks
            then interpolation_method ra = ''auto_simple_average''
            else if length benchmarks < 3 then interpolation_method ra = ''auto_linear''
            else interpolation_method ra = ''auto_linear'' \<or>
                 interpolation_method ra = ''auto_polynomial''" by blast
  from ra(2) have
    "(length benchmarks < 3 \<longrightarrow>
        interpolation_method ra \<noteq> ''polynomial_regression'' \<and>
        interpolation_method ra \<noteq> ''auto_polynomial'') \<and>
     (length benchmarks = 1 \<or> \<not> hasVariation benchmarks \<longrightarrow>
        interpolation_method ra = ''simple_average'' \<or>
        interpolation_method ra = ''auto_simple_average'')"
    by (auto split: if_splits)
  with ra(1) have "\<exists>r. predictAutoDetect benchmarks request = Inr r \<and>
            (length benchmarks < 3 \<longrightarrow>
               interpolation_method r \<noteq> ''polynomial_regression'' \<and>
               interpolation_method r \<noteq> ''auto_polynomial'') \<and>
            (length benchmarks < 2 \<or>
             (card ((\<lambda>b. Math_round (input_avg_len b)) ` set benchmarks) < 2 \<and>
              card ((\<lambda>b. Math_round (output_avg_len b)) ` set benchmarks) < 2) \<longrightarrow>
               interpolation_method r = ''simple_average'' \<or>
               interpolation_method r = ''auto_simple_average'')"
    unfolding len var by blast
  with first show ?thesis by blast
qed

theorem resolved_method_respects_data_witness:
  "\<exists>r. predictPerformance
          [\<lparr> input_avg_len = 100, output_avg_len = 50, traffic_level = None,
              stat = (\<lambda>m. Some 1) \<rparr>]
          \<lparr> req_model = ''m'', req_input_tokens = 100, req_output_tokens = 50,
            req_traffic_level = None, req_method = Some Polynomial \<rparr> = Inr (Some r) \<and>
        interpolation_method r \<noteq> ''polynomial_regression'' \<and>
        interpolation_method r \<noteq> ''auto_polynomial'' \<and>
        (interpolation_method r = ''simple_average'' \<or>
         interpolation_method r = ''auto_simple_average'')"
  using resolved_method_respects_data
    [of "[\<lparr> input_avg_len = 100, output_avg_len = 50, traffic_level = None,
              stat = (\<lambda>m. Some 1) \<rparr>]"
        "\<lparr> req_model = ''m'', req_input_tokens = 100, req_output_tokens = 50,
            req_traffic_level = None, req_method = Some Polynomial \<rparr>"]
  by auto

text \<open>
  Claim C7, amended. With exactly 2 benchmarks whose rounded input lengths or rounded
  output lengths differ, a request for \<open>polynomial\<close> is answered by the linear
  method.
\<close>

theorem polynomial_on_two_resolves_linear:
  assumes "benchmarks = [a, b]"
    and "Math_round (input_avg_len a) \<noteq> Math_round (input_avg_len b) \<or>
         Math_round (output_avg_len a) \<noteq> Math_round (output_avg_len b)"
    and "req_method request = Some Polynomial"
  shows "\<exists>r. predictPerformance benchmarks request = Inr (Some r) \<and>
             interpolation_method r = ''multivariate_linear''"
proof -
  from assms(1) have ne: "benchmarks \<noteq> []" by simp
  from assms(1,2) have var: "hasVariation benchmarks"
    by (auto simp: hasVariation_card card_insert_if)
  from predictPerformance_method [OF ne, of request] var assms(1,3)
  show ?thesis by auto
qed

theorem polynomial_on_two_resolves_linear_witness:
  "\<exists>r. predictPerformance
          [\<lparr> input_avg_len = 100, output_avg_len = 50, traffic_level = None,
              stat = (\<lambda>m. Some 1) \<rparr>,
           \<lparr> input_avg_len = 200, output_avg_len = 50, traffic_level = None,
              stat = (\<lambda>m. Some 1) \<rparr>]
          \<lparr> req_model = ''m'', req_input_tokens = 100, req_output_tokens = 50,
            req_traffic_level = None, req_method = Some Polynomial \<rparr> = Inr (Some r) \<and>
        interpolation_method r = ''multivariate_linear''"
proof -
  have "Math_round 100 \<noteq> Math_round 200"
    by (simp add: Math_round_def)
  then show ?thesis
    using polynomial_on_two_resolves_linear
      [of "[\<lparr> input_avg_len = 100, output_avg_len = 50, traffic_level = None,
              stat = (\<lambda>m. Some 1) \<rparr>,
           \<lparr> input_avg_len = 200, output_avg_len = 50, traffic_level = None,
              stat = (\<lambda>m. Some 1) \<rparr>]"
          "\<lparr> input_avg_len = 100, output_avg_len = 50, traffic_level = None,
              stat = (\<lambda>m. Some 1) \<rparr>"
          "\<lparr> input_avg_len = 200, output_avg_len = 50, traffic_level = None,
              stat = (\<lambda>m. Some 1) \<rparr>"
          "\<lparr> req_model = ''m'', req_input_tokens = 100, req_output_tokens = 50,
            req_traffic_level = None, req_method = Some Polynomial \<rparr>"]
    by simp
qed

text \<open>
  The claim as stated, for benchmarks that differ in input or output tokens, fails: the
  input lengths 100.2 and 100.4 differ, both round to 100, the outputs are equal, and the
  request for \<open>polynomial\<close> is answered by the average.
\<close>

theorem unrounded_difference_counterexample:
  "input_avg_len \<lparr> input_avg_len = 1002 / 10, output_avg_len = 50, traffic_level = None,
                   stat = (\<lambda>m. Some 1) \<rparr>
   \<noteq> input_avg_len \<lparr> input_avg_len = 1004 / 10, output_avg_len = 50, traffic_level = None,
                     stat = (\<lambda>m. Some 1) \<rparr>
   \<and> map_sum id (map_option interpolation_method)
       (predictPerformance
          [\<lparr> input_avg_len = 1002 / 10, output_avg_len = 50, traffic_level = None,
              stat = (\<lambda>m. Some 1) \<rparr>,
           \<lparr> input_avg_len = 1004 / 10, output_avg_len = 50, traffic_level = None,
              stat = (\<lambda>m. Some 1) \<rparr>]
          \<lparr> req_model = ''m'', req_input_tokens = 100, req_output_tokens = 50,
            req_traffic_level = None, req_method = Some Polynomial \<rparr>)
     = Inr (Some ''simple_average'')"
proof -
  have "Math_round (1002 / 10) = 100" "Math_round (1004 / 10) = 100"
    by (simp_all add: Math_round_def) 
  then show ?thesis
    by (simp add: predictPerformance_def hasVariation_def predictWithAverage_def)
qed

section \<open>The confidence of a prediction\<close>

text \<open>
  Claim C9, amended. For non-empty benchmarks \<open>predictPerformance\<close> returns a result
  whose confidence is \<open>low\<close> when the average fitter answers (a single benchmark, no
  variation of the rounded token counts, or the method \<open>average\<close>), and the label of
  \<open>calculateConfidence\<close> at the target when the linear or the polynomial fitter
  answers (the polynomial fitter then has 3 benchmarks or more). \<open>calculateConfidence\<close>
  gives \<open>high\<close> for a target whose input and output token counts are those of one of
  the benchmarks, so such a prediction is \<open>high\<close> unless the average fitter answers;
  it gives \<open>low\<close> for a target whose normalized distance to every benchmark is at
  least 0.3 and which lies outside the observed range of inputs or of outputs, and such
  a prediction is \<open>low\<close> whichever fitter answers.
\<close>

theorem confidence_of_prediction:
  assumes "benchmarks \<noteq> []"
  shows "\<exists>r. predictPerformance benchmarks request = Inr (Some r) \<and>
     confidence r =
       (if length benchmarks = 1 \<or> \<not> hasVariation benchmarks \<or>
           req_method request = Some Average
        then Low
        else calculateConfidence benchmarks (req_input_tokens request)
               (req_output_tokens request)) \<and>
     ((\<exists>b\<in>set benchmarks. input_avg_len b = req_input_tokens request \<and>
                           output_avg_len b = req_output_tokens request) \<longrightarrow>
        calculateConfidence benchmarks (req_input_tokens request)
          (req_output_tokens request) = High \<and>
        confidence r =
          (if length benchmarks = 1 \<or> \<not> hasVariation benchmarks \<or>
              req_method request = Some Average
           then Low else High)) \<and>
     ((\<forall>b\<in>set benchmarks.
          3 / 10 \<le> normDistance
             (Max (input_avg_len ` set benchmarks) - Min (input_avg_len ` set benchmarks))
             (Max (output_avg_len ` set benchmarks) - Min (output_avg_len ` set benchmarks))
             (req_input_tokens request) (req_output_tokens request) b) \<and>
      (req_input_tokens request < Min (input_avg_len ` set benchmarks) \<or>
       req_input_tokens request > Max (input_avg_len ` set benchmarks) \<or>
       req_output_tokens request < Min (output_avg_len ` set benchmarks) \<or>
       req_output_tokens request > Max (output_avg_len ` set benchmarks)) \<longrightarrow>
        calculateConfidence benchmarks (req_input_tokens request)
          (req_output_tokens request) = Low \<and>
        confidence r = Low)"
proof -
  from predictPerformance_confidence [OF assms, of request] obtain r where
    r: "predictPerformance benchmarks request = Inr (Some r)"
    and c: "confidence r =
       (if length benchmarks = 1 \<or> \<not> hasVariation benchmarks \<or>
           req_method request = Some Average
        then Low
        else calculateConfidence benchmarks (req_input_tokens request)
               (req_output_tokens request))"
    by blast
  note same = calculateConfidence_same [OF assms, of "req_input_tokens request"
                 "req_output_tokens request"]
  note far = calculateConfidence_far [OF assms, of "req_input_tokens request"
                 "req_output_tokens request"]
  from r c same far show ?thesis
    by (intro exI [of _ r]) auto
qed

theorem confidence_of_prediction_witness:
  "map_sum id (map_option (\<lambda>r. (interpolation_method r, confidence r)))
     (predictPerformance
        [\<lparr> input_avg_len = 100, output_avg_len = 50, traffic_level = None,
            stat = (\<lambda>m. Some 1) \<rparr>,
         \<lparr> input_avg_len = 200, output_avg_len = 100, traffic_level = None,
            stat = (\<lambda>m. Some 1) \<rparr>]
        \<lparr> req_model = ''m'', req_input_tokens = 100, req_output_tokens = 50,
          req_traffic_level = None, req_method = Some Linear \<rparr>)
   = Inr (Some (''multivariate_linear'', High))
   \<and> map_sum id (map_option (\<lambda>r. (interpolation_method r, confidence r)))
     (predictPerformance
        [\<lparr> input_avg_len = 100, output_avg_len = 50, traffic_level = None,
            stat = (\<lambda>m. Some 1) \<rparr>,
         \<lparr> input_avg_len = 200, output_avg_len = 100, traffic_level = None,
            stat = (\<lambda>m. Some 1) \<rparr>]
        \<lparr> req_model = ''m'', req_input_tokens = 300, req_output_tokens = 200,
          req_traffic_level = None, req_method = Some Linear \<rparr>)
   = Inr (Some (''multivariate_linear'', Low))
   \<and> calculateConfidence
        [\<lparr> input_avg_len = 100, output_avg_len = 50, traffic_level = None,
            stat = (\<lambda>m. Some 1) \<rparr>,
         \<lparr> input_avg_len = 200, output_avg_len = 100, traffic_level = None,
            stat = (\<lambda>m. Some 1) \<rparr>] 100 50 = High
   \<and> calculateConfidence
        [\<lparr> input_avg_len = 100, output_avg_len = 50, traffic_level = None,
            stat = (\<lambda>m. Some 1) \<rparr>,
         \<lparr> input_avg_len = 200, output_avg_len = 100, traffic_level = None,
            stat = (\<lambda>m. Some 1) \<rparr>] 300 200 = Low"
proof -
  let ?B = "[\<lparr> input_avg_len = 100, output_avg_len = 50, traffic_level = None,
               stat = (\<lambda>m. Some 1) \<rparr>,
             \<lparr> input_avg_len = 200, output_avg_len = 100, traffic_level = None,
               stat = (\<lambda>m. Some 1) \<rparr>]"
  let ?near = "\<lparr> req_model = ''m'', req_input_tokens = 100, req_output_tokens = 50,
                req_traffic_level = None, req_method = Some Linear \<rparr>"
  let ?far = "\<lparr> req_model = ''m'', req_input_tokens = 300, req_output_tokens = 200,
               req_traffic_level = None, req_method = Some Linear \<rparr>"
  have ne: "?B \<noteq> []" by simp
  have var: "hasVariation ?B"
    by (simp add: hasVariation_def Math_round_def)
  have "(3 / 10 :: real) \<le> sqrt 13" "(3 / 10 :: real) \<le> sqrt 5"
    by (rule real_le_rsqrt, simp add: power2_eq_square)+
  then have far: "\<forall>b\<in>set ?B.
      3 / 10 \<le> normDistance
         (Max (input_avg_len ` set ?B) - Min (input_avg_len ` set ?B))
         (Max (output_avg_len ` set ?B) - Min (output_avg_len ` set ?B)) 300 200 b"
    by (simp add: normDistance_def)
  have out: "300 < Min (input_avg_len ` set ?B) \<or> 300 > Max (input_avg_len ` set ?B) \<or>
             200 < Min (output_avg_len ` set ?B) \<or> 200 > Max (output_avg_len ` set ?B)"
    by simp
  have same: "\<exists>b\<in>set ?B. input_avg_len b = 100 \<and> output_avg_len b = 50"
    by simp
  from confidence_of_prediction [OF ne, of ?near] same var obtain r where
    r: "predictPerformance ?B ?near = Inr (Some r)"
    and c: "confidence r = High" "calculateConfidence ?B 100 50 = High"
    by auto
  from confidence_of_prediction [OF ne, of ?far] far out obtain q where
    q: "predictPerformance ?B ?far = Inr (Some q)"
    and d: "confidence q = Low" "calculateConfidence ?B 300 200 = Low"
    by auto
  from predictPerformance_method [OF ne, of ?near] r var
  have "interpolation_method r = ''multivariate_linear''" by simp
  moreover from predictPerformance_method [OF ne, of ?far] q var
  have "interpolation_method q = ''multivariate_linear''" by simp
  ultimately show ?thesis using r c q d by simp
qed

text \<open>
  The claim as stated, for every non-empty set of benchmarks, fails: a prediction at the
  token counts of the only benchmark, or one with the method \<open>average\<close> at the token
  counts of a benchmark, is answered by \<open>predictWithAverage\<close>, which writes
  \<open>confidence: 'low'\<close>.
\<close>

theorem averaged_at_observation_counterexample:
  "map_sum id (map_option (\<lambda>r. (interpolation_method r, confidence r)))
     (predictPerformance
        [\<lparr> input_avg_len = 100, output_avg_len = 50, traffic_level = None,
            stat = (\<lambda>m. Some 1) \<rparr>]
        \<lparr> req_model = ''m'', req_input_tokens = 100, req_output_tokens = 50,
          req_traffic_level = None, req_method = None \<rparr>)
   = Inr (Some (''simple_average'', Low))
   \<and> map_sum id (map_option (\<lambda>r. (interpolation_method r, confidence r)))
     (predictPerformance
        [\<lparr> input_avg_len = 100, output_avg_len = 50, traffic_level = None,
            stat = (\<lambda>m. Some 1) \<rparr>,
         \<lparr> input_avg_len = 200, output_avg_len = 100, traffic_level = None,
            stat = (\<lambda>m. Some 1) \<rparr>]
        \<lparr> req_model = ''m'', req_input_tokens = 100, req_output_tokens = 50,
          req_traffic_level = None, req_method = Some Average \<rparr>)
   = Inr (Some (''simple_average'', Low))"
proof -
  have "hasVariation
        [\<lparr> input_avg_len = 100, output_avg_len = 50, traffic_level = None,
            stat = (\<lambda>m. Some 1) \<rparr>,
         \<lparr> input_avg_len = 200, output_avg_len = 100, traffic_level = None,
            stat = (\<lambda>m. Some 1) \<rparr>]"
    by (simp add: hasVariation_def Math_round_def)
  then show ?thesis
    by (simp add: predictPerformance_def predictWithAverage_def)
qed

section \<open>A traffic level of zero\<close>

text \<open>
  Claim C10. A benchmark whose \<open>traffic_level\<close> is exactly 0 gets the traffic
  feature \<open>0.5\<close> in the rows of the 3-feature linear and polynomial fits, as a
  benchmark without \<open>traffic_level\<close> does; replacing the 0 by an absent value
  anywhere in the data changes neither \<open>fitLinearModel3D\<close> nor
  \<open>fitPolynomialModel3D\<close>.
\<close>

theorem zero_traffic_is_default:
  assumes "traffic_level point = Some 0"
  shows "linearRow3D point = [1, input_avg_len point, output_avg_len point, 1 / 2]
       \<and> linearRow3D point = linearRow3D (point \<lparr> traffic_level := None \<rparr>)
       \<and> polyRow3D point =
           [1, input_avg_len point, output_avg_len point, 1 / 2,
            input_avg_len point * input_avg_len point,
            output_avg_len point * output_avg_len point, (1 / 2) * (1 / 2),
            input_avg_len point * output_avg_len point,
            input_avg_len point * (1 / 2), output_avg_len point * (1 / 2)]
       \<and> polyRow3D point = polyRow3D (point \<lparr> traffic_level := None \<rparr>)
       \<and> fitLinearModel3D (before @ point # after) m =
           fitLinearModel3D (before @ point \<lparr> traffic_level := None \<rparr> # after) m
       \<and> fitPolynomialModel3D (before @ point # after) m =
           fitPolynomialModel3D (before @ point \<lparr> traffic_level := None \<rparr> # after) m"
proof -
  have lin: "linearRow3D point = linearRow3D (point \<lparr> traffic_level := None \<rparr>)"
    using assms by (simp add: linearRow3D_def)
  have poly: "polyRow3D point = polyRow3D (point \<lparr> traffic_level := None \<rparr>)"
    using assms by (simp add: polyRow3D_def)
  have "fitLinearModel3D (before @ point # after) m =
        fitLinearModel3D (before @ point \<lparr> traffic_level := None \<rparr> # after) m"
    by (simp add: fitLinearModel3D_def lin)
  moreover have "fitPolynomialModel3D (before @ point # after) m =
        fitPolynomialModel3D (before @ point \<lparr> traffic_level := None \<rparr> # after) m"
    by (simp add: fitPolynomialModel3D_def poly)
  moreover have "linearRow3D point = [1, input_avg_len point, output_avg_len point, 1 / 2]"
    "polyRow3D point =
           [1, input_avg_len point, output_avg_len point, 1 / 2,
            input_avg_len point * input_avg_len point,
            output_avg_len point * output_avg_len point, (1 / 2) * (1 / 2),
            input_avg_len point * output_avg_len point,
            input_avg_len point * (1 / 2), output_avg_len point * (1 / 2)]"
    using assms by (simp_all add: linearRow3D_def polyRow3D_def Let_def)
  ultimately show ?thesis using lin poly by blast
qed

theorem zero_traffic_is_default_witness:
  "linearRow3D \<lparr> input_avg_len = 100, output_avg_len = 50, traffic_level = Some 0,
                 stat = (\<lambda>m. Some 1) \<rparr> = [1, 100, 50, 1 / 2]
   \<and> fitLinearModel3D
       [\<lparr> input_avg_len = 100, output_avg_len = 50, traffic_level = Some 0,
           stat = (\<lambda>m. Some 1) \<rparr>] ttft_mean
     = fitLinearModel3D
       [\<lparr> input_avg_len = 100, output_avg_len = 50, traffic_level = None,
           stat = (\<lambda>m. Some 1) \<rparr>] ttft_mean
   \<and> fitPolynomialModel3D
       [\<lparr> input_avg_len = 100, output_avg_len = 50, traffic_level = Some 0,
           stat = (\<lambda>m. Some 1) \<rparr>] ttft_mean
     = fitPolynomialModel3D
       [\<lparr> input_avg_len = 100, output_avg_len = 50, traffic_level = None,
           stat = (\<lambda>m. Some 1) \<rparr>] ttft_mean"
  using zero_traffic_is_default
    [of "\<lparr> input_avg_len = 100, output_avg_len = 50, traffic_level = Some 0,
            stat = (\<lambda>m. Some 1) \<rparr>" "[]" "[]" ttft_mean]
  by simp

end
